theory Spec2Isabelle
  imports Complex_Main "HOL-Library.Word" "HOL-Library.AList"
begin

section \<open>go-eth2-wallet-distributed: accounts, wallet, index and batch\<close>

text \<open>
  A shallow embedding of the Go package \<open>distributed\<close>: \<open>account.go\<close> (accounts and
  their JSON form), the wallet file (\<open>ImportDistributedAccount\<close>, \<open>Accounts\<close>,
  \<open>AccountByID\<close>, \<open>retrieveAccountsIndex\<close>), the batch file (\<open>BatchWallet\<close>,
  \<open>retrieveAccountsBatch\<close>, \<open>batchDecrypt\<close>) and the batch wire format.

  Conventions of the model.
  \<^item> A Go \<open>error\<close> is a value of the datatype \<open>error\<close>; a function that returns
    \<open>(T, error)\<close> returns \<open>error + T\<close>, one that returns only \<open>error\<close> returns
    \<open>error option\<close> (\<open>None\<close> is Go's \<open>nil\<close>).
  \<^item> A method that mutates the wallet takes the wallet and returns the new one.
  \<^item> The mutexes, the goroutine and the channel of \<open>Accounts\<close> are not modelled: every
    operation runs alone, and the channel is the list of what is sent on it.
  \<^item> Go maps are association lists with distinct keys; \<open>m[k] = v\<close> is \<open>AList.update\<close>,
    \<open>delete(m, k)\<close> is \<open>AList.delete\<close>, a lookup is \<open>map_of\<close>. Go iterates over a
    map in an unspecified order; the model iterates in list order.
  \<^item> The collaborators the package is given or imports (the Encryptor, the Store, the BLS
    key library, the UUID library, the index serialiser) are parameters: the records
    \<open>env\<close> and \<open>Store\<close> hold their functions.
\<close>

subsection \<open>Bytes, errors\<close>

type_synonym bytes = "8 word list"
type_synonym uuid = "128 word"

datatype error =
    New string                 \<comment> \<open>\<open>errors.New(msg)\<close>, \<open>fmt.Errorf(msg)\<close>\<close>
  | Errorf string string       \<comment> \<open>\<open>fmt.Errorf(format, arg)\<close> with one \<open>%q\<close>, \<open>%s\<close> or \<open>%d\<close> argument\<close>
  | Wrap error string          \<comment> \<open>\<open>errors.Wrap(err, msg)\<close>\<close>
  | Wrapf error string nat     \<comment> \<open>\<open>errors.Wrapf(err, format, i)\<close>\<close>
  | Lib string                 \<comment> \<open>an error made by a library outside the package\<close>
  | Panic string               \<comment> \<open>a run-time panic\<close>

definition bindE :: "error + 'a \<Rightarrow> ('a \<Rightarrow> error + 'b) \<Rightarrow> error + 'b" where
  "bindE r f = (case r of Inl e \<Rightarrow> Inl e | Inr x \<Rightarrow> f x)"

subsection \<open>Hexadecimal and decimal text\<close>

text \<open>\<open>fmt.Sprintf("%x", bytes)\<close>: two lowercase digits for every byte.\<close>

definition hexdigit :: "nat \<Rightarrow> char" where
  "hexdigit n = char_of (if n < 10 then 48 + n else 87 + n)"

definition Sprintf_x :: "bytes \<Rightarrow> string" where
  "Sprintf_x bs = concat (map (\<lambda>b. [hexdigit (unat b div 16), hexdigit (unat b mod 16)]) bs)"

text \<open>\<open>encoding/hex\<close>: \<open>fromHexChar\<close> accepts \<open>0-9\<close>, \<open>a-f\<close> and \<open>A-F\<close>.\<close>

definition fromHexChar :: "char \<Rightarrow> nat option" where
  "fromHexChar c = (let n = (of_char c :: nat) in
     if 48 \<le> n \<and> n \<le> 57 then Some (n - 48)
     else if 97 \<le> n \<and> n \<le> 102 then Some (n - 97 + 10)
     else if 65 \<le> n \<and> n \<le> 70 then Some (n - 65 + 10)
     else None)"

fun hex_DecodeString :: "string \<Rightarrow> error + bytes" where
  "hex_DecodeString [] = Inr []"
| "hex_DecodeString [c] =
     (case fromHexChar c of
        None \<Rightarrow> Inl (Lib ''encoding/hex: invalid byte'')
      | Some _ \<Rightarrow> Inl (Lib ''encoding/hex: odd length hex string''))"
| "hex_DecodeString (c # d # rest) =
     (case fromHexChar c of
        None \<Rightarrow> Inl (Lib ''encoding/hex: invalid byte'')
      | Some h \<Rightarrow>
         (case fromHexChar d of
            None \<Rightarrow> Inl (Lib ''encoding/hex: invalid byte'')
          | Some l \<Rightarrow>
             (case hex_DecodeString rest of
                Inl e \<Rightarrow> Inl e
              | Inr bs \<Rightarrow> Inr (of_nat (16 * h + l) # bs))))"

text \<open>\<open>strings.TrimPrefix\<close> and \<open>strings.HasPrefix\<close>.\<close>

definition HasPrefix :: "string \<Rightarrow> string \<Rightarrow> bool" where
  "HasPrefix s p = (take (length p) s = p)"

definition TrimPrefix :: "string \<Rightarrow> string \<Rightarrow> string" where
  "TrimPrefix s p = (if HasPrefix s p then drop (length p) s else s)"

text \<open>\<open>fmt.Sprintf("%d", n)\<close> for an unsigned number.\<close>

fun Sprintf_d :: "nat \<Rightarrow> string" where
  "Sprintf_d n = (if n < 10 then [char_of (48 + n)]
                  else Sprintf_d (n div 10) @ [char_of (48 + n mod 10)])"

declare Sprintf_d.simps [simp del]

text \<open>
  \<open>strconv.ParseUint(s, 10, bits)\<close>: the empty string and any character that is not a
  decimal digit are syntax errors (no sign, no underscore in base 10), a value of
  \<open>2 ^ bits\<close> or more is a range error. The loop stops at the first of the two it meets.
\<close>

fun parse_digits :: "nat \<Rightarrow> nat \<Rightarrow> string \<Rightarrow> error + nat" where
  "parse_digits bits acc [] = Inr acc"
| "parse_digits bits acc (c # cs) =
     (let n = (of_char c :: nat) in
      if n < 48 \<or> 57 < n then Inl (Lib ''strconv.ParseUint: invalid syntax'')
      else if 2 ^ bits \<le> acc * 10 + (n - 48) then Inl (Lib ''strconv.ParseUint: value out of range'')
      else parse_digits bits (acc * 10 + (n - 48)) cs)"

definition ParseUint :: "string \<Rightarrow> nat \<Rightarrow> error + nat" where
  "ParseUint s bits = (if s = [] then Inl (Lib ''strconv.ParseUint: invalid syntax'')
                       else parse_digits bits 0 s)"

subsection \<open>JSON values and stored documents\<close>

text \<open>
  \<open>encoding/json\<close> is outside the package. A value of type \<open>any\<close> that \<open>json.Unmarshal\<close>
  produces is a \<open>json\<close>: \<open>nil\<close>, \<open>bool\<close>, \<open>float64\<close>, \<open>string\<close>, \<open>[]any\<close> or
  \<open>map[string]any\<close>. A \<open>float64\<close> is modelled by the rational number it holds. The byte
  string a Store keeps is a \<open>document\<close>: the value of its JSON text, or text that is not
  JSON. \<open>json.Marshal\<close> followed by \<open>json.Unmarshal\<close> is the identity on JSON values.
\<close>

datatype json =
    JNull
  | JBool bool
  | JNumber rat
  | JString string
  | JArray "json list"
  | JObject "(string \<times> json) list"

datatype document = NotJSON | Doc json

text \<open>\<open>json.Unmarshal(data, &v)\<close> with \<open>v map[string]any\<close>: \<open>null\<close> leaves the map nil.\<close>

definition json_Unmarshal_map :: "document \<Rightarrow> error + (string \<times> json) list" where
  "json_Unmarshal_map d = (case d of
      NotJSON \<Rightarrow> Inl (Lib ''json: invalid character'')
    | Doc JNull \<Rightarrow> Inr []
    | Doc (JObject kvs) \<Rightarrow> Inr kvs
    | Doc _ \<Rightarrow> Inl (Lib ''json: cannot unmarshal into Go value of type map[string]interface {}''))"

text \<open>
  Go's conversion of a \<open>float64\<close> to an unsigned integer discards the fraction. When the
  result does not fit the type, the value is implementation-dependent: the model takes it
  from the environment (\<open>oor\<close>). \<open>uint\<close> is 64 bits wide.
\<close>

definition trunc :: "rat \<Rightarrow> int" where
  "trunc f = (if f < 0 then - \<lfloor>- f\<rfloor> else \<lfloor>f\<rfloor>)"

definition float64_to_uint32 :: "(rat \<Rightarrow> 32 word) \<Rightarrow> rat \<Rightarrow> 32 word" where
  "float64_to_uint32 oor f =
     (if 0 \<le> trunc f \<and> trunc f < 2 ^ 32 then word_of_int (trunc f) else oor f)"

definition float64_to_uint :: "(rat \<Rightarrow> 64 word) \<Rightarrow> rat \<Rightarrow> 64 word" where
  "float64_to_uint oor f =
     (if 0 \<le> trunc f \<and> trunc f < 2 ^ 64 then word_of_int (trunc f) else oor f)"

subsection \<open>The collaborators\<close>

text \<open>
  \<open>e2wtypes.Encryptor\<close>. The crypto record is a \<open>map[string]any\<close>, \<open>None\<close> when nil.
  \<open>Encrypt\<close> draws a random salt in keystorev4; the model fixes one result.
\<close>

type_synonym crypto = "(string \<times> json) list option"

record encryptor =
  enc_Name :: string
  enc_Version :: "64 word"
  enc_String :: string
  Encrypt :: "bytes \<Rightarrow> string \<Rightarrow> error + crypto"
  Decrypt :: "crypto \<Rightarrow> string \<Rightarrow> error + bytes"

text \<open>
  An account holds the Encryptor the wallet was opened with or \<open>keystorev4.New()\<close>.
\<close>

datatype encryptor_ref = WalletEncryptor | Keystorev4

text \<open>
  A BLS key is modelled by its \<open>Marshal()\<close> bytes: \<open>BLSPublicKeyFromBytes\<close> and
  \<open>BLSPrivateKeyFromBytes\<close> accept or refuse bytes, and a key they accept marshals to
  the bytes it was read from. \<open>privkey_invalid\<close> and \<open>pubkey_invalid\<close> give the error for
  refused bytes.
\<close>

type_synonym PublicKey = bytes
type_synonym PrivateKey = bytes

text \<open>
  \<open>indexer.Index\<close> (the library go-indexer): the map from names to identifiers and the map
  from identifiers to names. \<open>Add\<close> writes both, \<open>Remove\<close> deletes from both. Its
  \<open>Serialize\<close> and \<open>Deserialize\<close> are parameters.
\<close>

record Index =
  ids :: "(string \<times> uuid) list"
  names :: "(uuid \<times> string) list"

definition indexer_New :: Index where
  "indexer_New = \<lparr> ids = [], names = [] \<rparr>"

definition Index_Add :: "uuid \<Rightarrow> string \<Rightarrow> Index \<Rightarrow> Index" where
  "Index_Add i n idx = \<lparr> ids = AList.update n i (ids idx), names = AList.update i n (names idx) \<rparr>"

definition Index_Remove :: "uuid \<Rightarrow> string \<Rightarrow> Index \<Rightarrow> Index" where
  "Index_Remove i n idx = \<lparr> ids = AList.delete n (ids idx), names = AList.delete i (names idx) \<rparr>"

definition Index_ID :: "Index \<Rightarrow> string \<Rightarrow> uuid option" where
  "Index_ID idx n = map_of (ids idx) n"

definition Index_Name :: "Index \<Rightarrow> uuid \<Rightarrow> string option" where
  "Index_Name idx i = map_of (names idx) i"

record env =
  wallet_encryptor :: encryptor
  keystorev4_New :: encryptor
  privkey_invalid :: "bytes \<Rightarrow> error option"
  pubkey_invalid :: "bytes \<Rightarrow> error option"
  sk_PublicKey :: "PrivateKey \<Rightarrow> PublicKey"
  sk_Sign :: "PrivateKey \<Rightarrow> bytes \<Rightarrow> bytes"
  uuid_String :: "uuid \<Rightarrow> string"
  uuid_Parse :: "string \<Rightarrow> error + uuid"
  index_Serialize :: "Index \<Rightarrow> error + document"
  index_Deserialize :: "document \<Rightarrow> error + Index"
  oor32 :: "rat \<Rightarrow> 32 word"
  oor64 :: "rat \<Rightarrow> 64 word"

definition encryptor_of :: "env \<Rightarrow> encryptor_ref \<Rightarrow> encryptor" where
  "encryptor_of E r = (case r of WalletEncryptor \<Rightarrow> wallet_encryptor E | Keystorev4 \<Rightarrow> keystorev4_New E)"

definition BLSPrivateKeyFromBytes :: "env \<Rightarrow> bytes \<Rightarrow> error + PrivateKey" where
  "BLSPrivateKeyFromBytes E b = (case privkey_invalid E b of Some e \<Rightarrow> Inl e | None \<Rightarrow> Inr b)"

definition BLSPublicKeyFromBytes :: "env \<Rightarrow> bytes \<Rightarrow> error + PublicKey" where
  "BLSPublicKeyFromBytes E b = (case pubkey_invalid E b of Some e \<Rightarrow> Inl e | None \<Rightarrow> Inr b)"

subsection \<open>account.go\<close>

record account =
  a_id :: uuid
  a_name :: string
  verificationVector :: "PublicKey list"
  signingThreshold :: "32 word"
  participants :: "(64 word \<times> string) list"
  a_crypto :: crypto
  secretKey :: "PrivateKey option"
  publicKey :: PublicKey
  a_version :: "64 word"
  a_encryptor :: "encryptor_ref option"

text \<open>\<open>len(m)\<close> of a map: the number of its keys.\<close>

definition map_len :: "('k \<times> 'v) list \<Rightarrow> nat" where
  "map_len m = length (remdups (map fst m))"

text \<open>
  \<open>newAccount\<close>: a zero account with the given fresh identifier (\<open>uuid.NewRandom\<close> is
  taken not to fail). The zero value of the public key is written \<open>[]\<close>.
\<close>

definition newAccount :: "uuid \<Rightarrow> account" where
  "newAccount i = \<lparr> a_id = i, a_name = [], verificationVector = [], signingThreshold = 0,
     participants = [], a_crypto = None, secretKey = None, publicKey = [], a_version = 0,
     a_encryptor = None \<rparr>"

text \<open>
  \<open>MarshalJSON\<close>: the map \<open>data\<close>, in the key order \<open>json.Marshal\<close> writes. In the model
  \<open>json.Marshal\<close> does not fail. An account without Encryptor panics at
  \<open>a.encryptor.Name()\<close>.
\<close>

definition MarshalJSON :: "env \<Rightarrow> account \<Rightarrow> error + document" where
  "MarshalJSON E a = (case a_encryptor a of
      None \<Rightarrow> Inl (Panic ''nil pointer dereference'')
    | Some r \<Rightarrow> Inr (Doc (JObject [
        (''crypto'', (case a_crypto a of None \<Rightarrow> JNull | Some c \<Rightarrow> JObject c)),
        (''encryptor'', JString (enc_Name (encryptor_of E r))),
        (''name'', JString (a_name a)),
        (''participants'', JObject (map (\<lambda>(k, v). (Sprintf_d (unat k), JString v)) (participants a))),
        (''pubkey'', JString (Sprintf_x (publicKey a))),
        (''signing_threshold'', JNumber (of_nat (unat (signingThreshold a)))),
        (''uuid'', JString (uuid_String E (a_id a))),
        (''verificationvector'', JArray (map (\<lambda>k. JString (Sprintf_x k)) (verificationVector a))),
        (''version'', JNumber (of_nat (unat (a_version a))))])))"

text \<open>\<open>UnmarshalJSON\<close>, one definition for each field's block, in the order of the source.\<close>

definition unmarshal_uuid :: "env \<Rightarrow> (string \<times> json) list \<Rightarrow> error + uuid" where
  "unmarshal_uuid E v = (case map_of v ''uuid'' of
      None \<Rightarrow> Inl (New ''account ID missing'')
    | Some (JString idStr) \<Rightarrow>
        (case uuid_Parse E idStr of
           Inl err \<Rightarrow> Inl (Wrap err ''failed to parse UUID'')
         | Inr i \<Rightarrow> Inr i)
    | Some _ \<Rightarrow> Inl (New ''account ID invalid''))"

definition unmarshal_name :: "(string \<times> json) list \<Rightarrow> error + string" where
  "unmarshal_name v = (case map_of v ''name'' of
      None \<Rightarrow> Inl (New ''account name missing'')
    | Some (JString n) \<Rightarrow> Inr n
    | Some _ \<Rightarrow> Inl (New ''account name invalid''))"

definition unmarshal_pubkey :: "env \<Rightarrow> (string \<times> json) list \<Rightarrow> error + PublicKey" where
  "unmarshal_pubkey E v = (case map_of v ''pubkey'' of
      None \<Rightarrow> Inl (New ''account pubkey missing'')
    | Some (JString pk) \<Rightarrow>
        (case hex_DecodeString (TrimPrefix pk ''0x'') of
           Inl err \<Rightarrow> Inl (Wrap err ''failed to decode public key'')
         | Inr bs \<Rightarrow>
            (case BLSPublicKeyFromBytes E bs of
               Inl err \<Rightarrow> Inl (Wrap err ''failed to obtain BLS public key'')
             | Inr k \<Rightarrow> Inr k))
    | Some _ \<Rightarrow> Inl (New ''account pubkey invalid''))"

fun unmarshal_vv_loop :: "env \<Rightarrow> nat \<Rightarrow> json list \<Rightarrow> error + PublicKey list" where
  "unmarshal_vv_loop E i [] = Inr []"
| "unmarshal_vv_loop E i (x # xs) =
     (case x of
        JString key \<Rightarrow>
          (case hex_DecodeString (TrimPrefix key ''0x'') of
             Inl err \<Rightarrow> Inl (Wrapf err ''failed to decode verification vector element %d'' i)
           | Inr bs \<Rightarrow>
              (case BLSPublicKeyFromBytes E bs of
                 Inl err \<Rightarrow> Inl (Wrapf err ''failed to obtain BLS public key for verification fector element %d'' i)
               | Inr k \<Rightarrow>
                  (case unmarshal_vv_loop E (Suc i) xs of
                     Inl e \<Rightarrow> Inl e
                   | Inr ks \<Rightarrow> Inr (k # ks))))
      | _ \<Rightarrow> Inl (New ''account verification vector does not contain strings''))"

definition unmarshal_verificationvector :: "env \<Rightarrow> (string \<times> json) list \<Rightarrow> error + PublicKey list" where
  "unmarshal_verificationvector E v = (case map_of v ''verificationvector'' of
      None \<Rightarrow> Inl (New ''account verificationvector missing'')
    | Some (JArray xs) \<Rightarrow> unmarshal_vv_loop E 0 xs
    | Some _ \<Rightarrow> Inl (New ''account verificationvector invalid''))"

fun unmarshal_participants_loop ::
  "(64 word \<times> string) list \<Rightarrow> (string \<times> json) list \<Rightarrow> error + (64 word \<times> string) list" where
  "unmarshal_participants_loop ps [] = Inr ps"
| "unmarshal_participants_loop ps ((k, x) # rest) =
     (case ParseUint k 64 of
        Inl err \<Rightarrow> Inl (New ''account participant ID invalid'')
      | Inr i \<Rightarrow>
         (case x of
            JString val \<Rightarrow> unmarshal_participants_loop (AList.update (of_nat i) val ps) rest
          | _ \<Rightarrow> Inl (New ''account participant value invalid'')))"

definition unmarshal_participants :: "(string \<times> json) list \<Rightarrow> error + (64 word \<times> string) list" where
  "unmarshal_participants v = (case map_of v ''participants'' of
      None \<Rightarrow> Inl (New ''participants missing'')
    | Some (JObject participantData) \<Rightarrow> unmarshal_participants_loop [] participantData
    | Some _ \<Rightarrow> Inl (New ''account participants invalid''))"

text \<open>\<open>uint32(len(a.participants)/2)\<close>: the length is an \<open>int\<close>, the conversion keeps its low 32 bits.\<close>

definition half_participants :: "('k \<times> 'v) list \<Rightarrow> 32 word" where
  "half_participants ps = of_nat (map_len ps div 2)"

definition unmarshal_signing_threshold ::
  "env \<Rightarrow> (64 word \<times> string) list \<Rightarrow> (string \<times> json) list \<Rightarrow> error + 32 word" where
  "unmarshal_signing_threshold E ps v = (case map_of v ''signing_threshold'' of
      None \<Rightarrow> Inl (New ''account signing threshold missing'')
    | Some (JNumber st) \<Rightarrow>
        (if float64_to_uint32 (oor32 E) st \<le> half_participants ps
         then Inl (New ''account signing threshold too low'')
         else Inr (float64_to_uint32 (oor32 E) st))
    | Some _ \<Rightarrow> Inl (New ''account signing threshold invalid''))"

definition unmarshal_crypto :: "(string \<times> json) list \<Rightarrow> error + crypto" where
  "unmarshal_crypto v = (case map_of v ''crypto'' of
      None \<Rightarrow> Inl (New ''account crypto missing'')
    | Some (JObject c) \<Rightarrow> Inr (Some c)
    | Some _ \<Rightarrow> Inl (New ''account crypto invalid''))"

definition unmarshal_version :: "env \<Rightarrow> (string \<times> json) list \<Rightarrow> error + 64 word" where
  "unmarshal_version E v = (case map_of v ''version'' of
      None \<Rightarrow> Inl (New ''account version missing'')
    | Some (JNumber n) \<Rightarrow> Inr (float64_to_uint (oor64 E) n)
    | Some _ \<Rightarrow> Inl (New ''account version invalid''))"

text \<open>
  \<open>UnmarshalJSON\<close> writes the fields of its receiver one after the other; on an error the
  receiver is left half written and the caller (\<open>deserializeAccount\<close>) drops it, so the
  model returns the account only on success. The fields it does not write (the secret
  key) keep the receiver's value.
\<close>

definition UnmarshalJSON :: "env \<Rightarrow> account \<Rightarrow> document \<Rightarrow> error + account" where
  "UnmarshalJSON E a d =
     (case json_Unmarshal_map d of
        Inl err \<Rightarrow> Inl (Wrap err ''failed to unmarshal account'')
      | Inr v \<Rightarrow>
     bindE (unmarshal_uuid E v) (\<lambda>i.
     bindE (unmarshal_name v) (\<lambda>n.
     bindE (unmarshal_pubkey E v) (\<lambda>pk.
     bindE (unmarshal_verificationvector E v) (\<lambda>vv.
     bindE (unmarshal_participants v) (\<lambda>ps.
     bindE (unmarshal_signing_threshold E ps v) (\<lambda>st.
     bindE (unmarshal_crypto v) (\<lambda>c.
     bindE (unmarshal_version E v) (\<lambda>ver.
       if ver = 4
       then Inr (a\<lparr> a_id := i, a_name := n, publicKey := pk, verificationVector := vv,
                   participants := ps, signingThreshold := st, a_crypto := c,
                   a_version := ver, a_encryptor := Some Keystorev4 \<rparr>)
       else Inl (New ''unsupported keystore version''))))))))))"

text \<open>\<open>Lock\<close>, \<open>Unlock\<close>, \<open>IsUnlocked\<close>, \<open>PrivateKey\<close>, \<open>Sign\<close>.\<close>

definition Lock :: "account \<Rightarrow> error option \<times> account" where
  "Lock a = (None, a\<lparr> secretKey := None \<rparr>)"

definition Unlock :: "env \<Rightarrow> account \<Rightarrow> string \<Rightarrow> error option \<times> account" where
  "Unlock E a passphrase =
     (if secretKey a \<noteq> None then (None, a)
      else (case a_encryptor a of
        None \<Rightarrow> (Some (Panic ''nil pointer dereference''), a)
      | Some r \<Rightarrow>
     (case Decrypt (encryptor_of E r) (a_crypto a) passphrase of
        Inl err \<Rightarrow> (Some (New ''incorrect passphrase''), a)
      | Inr secretBytes \<Rightarrow>
         (case BLSPrivateKeyFromBytes E secretBytes of
            Inl err \<Rightarrow> (Some (Wrap err ''failed to obtain BLS private key''), a)
          | Inr sk \<Rightarrow>
             if sk_PublicKey E sk \<noteq> publicKey a
             then (Some (New ''secret key does not correspond to public key''), a)
             else (None, a\<lparr> secretKey := Some sk \<rparr>)))))"

definition IsUnlocked :: "account \<Rightarrow> bool" where
  "IsUnlocked a = (secretKey a \<noteq> None)"

definition PrivateKey :: "account \<Rightarrow> error + PrivateKey" where
  "PrivateKey a = (case secretKey a of
      None \<Rightarrow> Inl (New ''cannot provide private key when account is locked'')
    | Some sk \<Rightarrow> Inr sk)"

definition Sign :: "env \<Rightarrow> account \<Rightarrow> bytes \<Rightarrow> error + bytes" where
  "Sign E a d = (case secretKey a of
      None \<Rightarrow> Inl (New ''cannot sign when account is locked'')
    | Some sk \<Rightarrow> Inr (sk_Sign E sk d))"

text \<open>
  \<open>deserializeAccount\<close>: a new account with the wallet's Encryptor, then
  \<open>json.Unmarshal(data, a)\<close>, which refuses text that is not JSON before it calls
  \<open>UnmarshalJSON\<close>. The random identifier of \<open>newAccount\<close> is overwritten or dropped.
\<close>

definition deserializeAccount :: "env \<Rightarrow> document \<Rightarrow> error + account" where
  "deserializeAccount E d =
     (case d of
        NotJSON \<Rightarrow> Inl (Wrap (Lib ''json: invalid character'') ''failed to unmarshal account'')
      | Doc j \<Rightarrow>
         (case UnmarshalJSON E ((newAccount 0)\<lparr> a_encryptor := Some WalletEncryptor \<rparr>) d of
            Inl err \<Rightarrow> Inl (Wrap err ''failed to unmarshal account'')
          | Inr a \<Rightarrow> Inr a))"

subsection \<open>The Store\<close>

text \<open>
  \<open>e2wtypes.Store\<close>, with the optional \<open>BatchRetriever\<close> and \<open>BatchStorer\<close> (\<open>None\<close>
  when the store does not implement them). \<open>'s\<close> is the state of the store. A write
  returns the new state and may fail. \<open>RetrieveAccount\<close>, the retrieval that the package
  repeats without a write in between (the two look-ups that confirm a stored account),
  returns the state after it as well: a Store may lose its connection, so a retrieval can
  fail after the same retrieval has succeeded. The other retrievals are functions of the
  state.
\<close>

record 's Store =
  store_Name :: string
  RetrieveWallet :: "'s \<Rightarrow> string \<Rightarrow> error + document"
  RetrieveAccounts :: "'s \<Rightarrow> uuid \<Rightarrow> document list"
  RetrieveAccount :: "'s \<Rightarrow> uuid \<Rightarrow> uuid \<Rightarrow> (error + document) \<times> 's"
  StoreAccount :: "'s \<Rightarrow> uuid \<Rightarrow> uuid \<Rightarrow> document \<Rightarrow> error option \<times> 's"
  RetrieveAccountsIndex :: "'s \<Rightarrow> uuid \<Rightarrow> error + document"
  StoreAccountsIndex :: "'s \<Rightarrow> uuid \<Rightarrow> document \<Rightarrow> error option \<times> 's"
  RetrieveBatch :: "('s \<Rightarrow> uuid \<Rightarrow> error + document) option"
  StoreBatch :: "('s \<Rightarrow> uuid \<Rightarrow> string \<Rightarrow> document \<Rightarrow> error option \<times> 's) option"

subsection \<open>The batch and its wire format\<close>

record batchEntry =
  e_id :: uuid
  e_name :: string
  e_verificationVector :: "bytes list"
  e_signingThreshold :: "32 word"
  e_participants :: "(string \<times> string) list"
  e_pubkey :: bytes

record batch =
  entries :: "batchEntry list"
  b_crypto :: crypto
  b_encryptor :: "encryptor_ref option"

definition version :: nat where
  "version = 1"

text \<open>
  \<open>json.Unmarshal\<close> into a struct: a field the object does not have, or has as \<open>null\<close>,
  keeps its zero value; a value of another JSON type is an error. The model matches the
  keys exactly (the library also accepts a key that differs in letter case).
\<close>

definition type_error :: error where
  "type_error = Lib ''json: cannot unmarshal into Go struct field''"

definition dec_string :: "json option \<Rightarrow> error + string" where
  "dec_string x = (case x of
      None \<Rightarrow> Inr [] | Some JNull \<Rightarrow> Inr [] | Some (JString s) \<Rightarrow> Inr s | Some _ \<Rightarrow> Inl type_error)"

fun dec_strings :: "json list \<Rightarrow> error + string list" where
  "dec_strings [] = Inr []"
| "dec_strings (x # xs) =
     bindE (dec_string (Some x)) (\<lambda>s. bindE (dec_strings xs) (\<lambda>ss. Inr (s # ss)))"

definition dec_string_list :: "json option \<Rightarrow> error + string list" where
  "dec_string_list x = (case x of
      None \<Rightarrow> Inr [] | Some JNull \<Rightarrow> Inr [] | Some (JArray xs) \<Rightarrow> dec_strings xs
    | Some _ \<Rightarrow> Inl type_error)"

fun dec_string_pairs :: "(string \<times> json) list \<Rightarrow> error + (string \<times> string) list" where
  "dec_string_pairs [] = Inr []"
| "dec_string_pairs ((k, x) # xs) =
     bindE (dec_string (Some x)) (\<lambda>s. bindE (dec_string_pairs xs) (\<lambda>ss. Inr ((k, s) # ss)))"

definition dec_string_map :: "json option \<Rightarrow> error + (string \<times> string) list" where
  "dec_string_map x = (case x of
      None \<Rightarrow> Inr [] | Some JNull \<Rightarrow> Inr [] | Some (JObject kvs) \<Rightarrow> dec_string_pairs kvs
    | Some _ \<Rightarrow> Inl type_error)"

text \<open>\<open>uuid.UUID\<close> reads itself from a JSON string (\<open>UnmarshalText\<close>).\<close>

definition dec_uuid :: "env \<Rightarrow> json option \<Rightarrow> error + uuid" where
  "dec_uuid E x = (case x of
      None \<Rightarrow> Inr 0 | Some JNull \<Rightarrow> Inr 0 | Some (JString s) \<Rightarrow> uuid_Parse E s
    | Some _ \<Rightarrow> Inl type_error)"

text \<open>An \<open>int\<close> field takes a number without fraction that fits 64 signed bits.\<close>

definition dec_int :: "json option \<Rightarrow> error + int" where
  "dec_int x = (case x of
      None \<Rightarrow> Inr 0 | Some JNull \<Rightarrow> Inr 0
    | Some (JNumber n) \<Rightarrow>
        (if of_int \<lfloor>n\<rfloor> = n \<and> - (2 ^ 63) \<le> \<lfloor>n\<rfloor> \<and> \<lfloor>n\<rfloor> < 2 ^ 63 then Inr \<lfloor>n\<rfloor> else Inl type_error)
    | Some _ \<Rightarrow> Inl type_error)"

definition dec_crypto :: "json option \<Rightarrow> error + crypto" where
  "dec_crypto x = (case x of
      None \<Rightarrow> Inr None | Some JNull \<Rightarrow> Inr None | Some (JObject c) \<Rightarrow> Inr (Some c)
    | Some _ \<Rightarrow> Inl type_error)"

definition dec_struct :: "json \<Rightarrow> error + (string \<times> json) list" where
  "dec_struct j = (case j of JNull \<Rightarrow> Inr [] | JObject kvs \<Rightarrow> Inr kvs | _ \<Rightarrow> Inl type_error)"

text \<open>\<open>batchEntry.MarshalJSON\<close> and \<open>batchEntry.UnmarshalJSON\<close>.\<close>

definition batchEntry_MarshalJSON :: "env \<Rightarrow> batchEntry \<Rightarrow> json" where
  "batchEntry_MarshalJSON E b = JObject [
     (''uuid'', JString (uuid_String E (e_id b))),
     (''name'', JString (e_name b)),
     (''verification_vector'', JArray (map (\<lambda>k. JString (Sprintf_x k)) (e_verificationVector b))),
     (''signing_threshold'', JString (Sprintf_d (unat (e_signingThreshold b)))),
     (''participants'', JObject (map (\<lambda>(k, v). (k, JString v)) (e_participants b))),
     (''pubkey'', JString (Sprintf_x (e_pubkey b)))]"

fun decode_verification_vector :: "nat \<Rightarrow> string list \<Rightarrow> error + bytes list" where
  "decode_verification_vector i [] = Inr []"
| "decode_verification_vector i (x # xs) =
     (case hex_DecodeString (TrimPrefix x ''0x'') of
        Inl err \<Rightarrow> Inl (Wrapf err ''invalid verification vector %d'' i)
      | Inr bs \<Rightarrow> bindE (decode_verification_vector (Suc i) xs) (\<lambda>r. Inr (bs # r)))"

definition batchEntry_UnmarshalJSON :: "env \<Rightarrow> json \<Rightarrow> error + batchEntry" where
  "batchEntry_UnmarshalJSON E input =
     (case bindE (dec_struct input) (\<lambda>kvs.
           bindE (dec_uuid E (map_of kvs ''uuid'')) (\<lambda>u.
           bindE (dec_string (map_of kvs ''name'')) (\<lambda>n.
           bindE (dec_string_list (map_of kvs ''verification_vector'')) (\<lambda>vv.
           bindE (dec_string (map_of kvs ''signing_threshold'')) (\<lambda>st.
           bindE (dec_string_map (map_of kvs ''participants'')) (\<lambda>ps.
           bindE (dec_string (map_of kvs ''pubkey'')) (\<lambda>pk.
             Inr (u, n, vv, st, ps, pk)))))))) of
        Inl err \<Rightarrow> Inl (Wrap err ''invalid JSON'')
      | Inr (u, n, vv, st, ps, pk) \<Rightarrow>
          bindE (decode_verification_vector 0 vv) (\<lambda>vvb.
          (case ParseUint st 32 of
             Inl err \<Rightarrow> Inl (Wrap err ''failed to parse signing threshold'')
           | Inr t \<Rightarrow>
              (case hex_DecodeString (TrimPrefix pk ''0x'') of
                 Inl err \<Rightarrow> Inl (Wrap err ''invalid pubkey'')
               | Inr pkb \<Rightarrow>
                  Inr \<lparr> e_id = u, e_name = n, e_verificationVector = vvb,
                        e_signingThreshold = of_nat t, e_participants = ps, e_pubkey = pkb \<rparr>))))"

text \<open>
  \<open>batch.MarshalJSON\<close> and \<open>batch.UnmarshalJSON\<close>. A \<open>null\<close> element of \<open>entries\<close> would
  be a nil pointer, on which \<open>retrieveAccountsBatch\<close> panics; the model refuses it here.
\<close>

definition batch_MarshalJSON :: "env \<Rightarrow> batch \<Rightarrow> error + document" where
  "batch_MarshalJSON E b = (case b_encryptor b of
      None \<Rightarrow> Inl (Panic ''nil pointer dereference'')
    | Some r \<Rightarrow> Inr (Doc (JObject [
        (''entries'', JArray (map (batchEntry_MarshalJSON E) (entries b))),
        (''crypto'', (case b_crypto b of None \<Rightarrow> JNull | Some c \<Rightarrow> JObject c)),
        (''encryptor'', JString (enc_String (encryptor_of E r))),
        (''version'', JNumber (of_nat version))])))"

fun dec_entries :: "env \<Rightarrow> json list \<Rightarrow> error + batchEntry list" where
  "dec_entries E [] = Inr []"
| "dec_entries E (x # xs) =
     (if x = JNull then Inl (Panic ''nil pointer dereference'')
      else bindE (batchEntry_UnmarshalJSON E x) (\<lambda>e. bindE (dec_entries E xs) (\<lambda>es. Inr (e # es))))"

definition dec_entry_list :: "env \<Rightarrow> json option \<Rightarrow> error + batchEntry list" where
  "dec_entry_list E x = (case x of
      None \<Rightarrow> Inr [] | Some JNull \<Rightarrow> Inr [] | Some (JArray xs) \<Rightarrow> dec_entries E xs
    | Some _ \<Rightarrow> Inl type_error)"

definition batch_UnmarshalJSON :: "env \<Rightarrow> document \<Rightarrow> error + batch" where
  "batch_UnmarshalJSON E input = (case input of
      NotJSON \<Rightarrow> Inl (Lib ''json: invalid character'')
    | Doc j \<Rightarrow>
       (case bindE (dec_struct j) (\<lambda>kvs.
             bindE (dec_entry_list E (map_of kvs ''entries'')) (\<lambda>es.
             bindE (dec_crypto (map_of kvs ''crypto'')) (\<lambda>c.
             bindE (dec_string (map_of kvs ''encryptor'')) (\<lambda>en.
             bindE (dec_int (map_of kvs ''version'')) (\<lambda>v.
               Inr (es, c, en, v)))))) of
          Inl err \<Rightarrow> Inl (Wrap err ''invalid JSON'')
        | Inr (es, c, en, v) \<Rightarrow>
            if v \<noteq> int version then Inl (Errorf ''unsupported version %d'' (Sprintf_d (nat v)))
            else if en = ''keystorev4''
            then Inr \<lparr> entries = es, b_crypto = c, b_encryptor = Some Keystorev4 \<rparr>
            else Inl (Errorf ''unsupported encryptor %s'' en)))"

subsection \<open>The wallet\<close>

text \<open>
  The wallet's fields. \<open>store\<close> is the state of the wallet's Store (its methods are the
  record \<open>S\<close> every operation takes); the wallet's Encryptor is \<open>wallet_encryptor E\<close>.
  An account in \<open>accounts\<close> is the object a lookup returns: the model returns its value.
\<close>

record 's wallet =
  w_id :: uuid
  w_name :: string
  w_version :: "64 word"
  store :: 's
  unlocked :: bool
  index :: Index
  batch :: "batch option"
  accounts :: "(uuid \<times> account) list"
  batchDecrypted :: bool

definition walletType :: string where
  "walletType = ''distributed''"

definition newWallet :: "uuid \<Rightarrow> 's \<Rightarrow> 's wallet" where
  "newWallet i s = \<lparr> w_id = i, w_name = [], w_version = of_nat version, store = s, unlocked = False,
     index = indexer_New, batch = None, accounts = [], batchDecrypted = False \<rparr>"

text \<open>\<open>wallet.Lock\<close>, \<open>wallet.Unlock\<close> (the passphrase is not read), \<open>wallet.IsUnlocked\<close>.\<close>

definition wallet_Lock :: "'s wallet \<Rightarrow> error option \<times> 's wallet" where
  "wallet_Lock w = (None, w\<lparr> unlocked := False \<rparr>)"

definition wallet_Unlock :: "'s wallet \<Rightarrow> string \<Rightarrow> error option \<times> 's wallet" where
  "wallet_Unlock w passphrase = (None, w\<lparr> unlocked := True \<rparr>)"

definition wallet_IsUnlocked :: "'s wallet \<Rightarrow> error + bool" where
  "wallet_IsUnlocked w = Inr (unlocked w)"

text \<open>\<open>storeAccountsIndex\<close>.\<close>

definition storeAccountsIndex :: "'s Store \<Rightarrow> env \<Rightarrow> 's wallet \<Rightarrow> error option \<times> 's wallet" where
  "storeAccountsIndex S E w =
     (case index_Serialize E (index w) of
        Inl err \<Rightarrow> (Some (Wrap err ''failed to serialize index''), w)
      | Inr serializedIndex \<Rightarrow>
         (case StoreAccountsIndex S (store w) (w_id w) serializedIndex of
            (Some err, s') \<Rightarrow> (Some (Wrap err ''failed to store accounts index''), w\<lparr> store := s' \<rparr>)
          | (None, s') \<Rightarrow> (None, w\<lparr> store := s' \<rparr>)))"

text \<open>
  \<open>retrieveAccountsBatch\<close>. The loop over the entries of the batch makes one locked account
  for every entry, without crypto record, and puts it into \<open>w.accounts\<close>; it stops at the
  first entry it cannot read and keeps the accounts made so far.
\<close>

fun batch_verification_vector :: "env \<Rightarrow> nat \<Rightarrow> bytes list \<Rightarrow> error + PublicKey list" where
  "batch_verification_vector E j [] = Inr []"
| "batch_verification_vector E j (v # vs) =
     (case BLSPublicKeyFromBytes E v of
        Inl err \<Rightarrow> Inl (Wrapf err ''invalid verification vector %d'' j)
      | Inr k \<Rightarrow> bindE (batch_verification_vector E (Suc j) vs) (\<lambda>ks. Inr (k # ks)))"

fun batch_participants ::
  "(64 word \<times> string) list \<Rightarrow> (string \<times> string) list \<Rightarrow> error + (64 word \<times> string) list" where
  "batch_participants ps [] = Inr ps"
| "batch_participants ps ((k, v) # rest) =
     (case ParseUint k 64 of
        Inl err \<Rightarrow> Inl (Wrap err ''invalid participant ID'')
      | Inr i \<Rightarrow> batch_participants (AList.update (of_nat i) v ps) rest)"

definition account_of_entry :: "env \<Rightarrow> batchEntry \<Rightarrow> error + account" where
  "account_of_entry E e =
     (case BLSPublicKeyFromBytes E (e_pubkey e) of
        Inl err \<Rightarrow> Inl (Wrap err ''invalid public key'')
      | Inr pk \<Rightarrow>
          bindE (batch_verification_vector E 0 (e_verificationVector e)) (\<lambda>vv.
          bindE (batch_participants [] (e_participants e)) (\<lambda>ps.
            Inr \<lparr> a_id = e_id e, a_name = e_name e, verificationVector = vv,
                  signingThreshold = e_signingThreshold e, participants = ps, a_crypto = None,
                  secretKey = None, publicKey = pk, a_version = of_nat version,
                  a_encryptor = Some WalletEncryptor \<rparr>)))"

fun batch_accounts ::
  "env \<Rightarrow> batchEntry list \<Rightarrow> (uuid \<times> account) list \<Rightarrow> error option \<times> (uuid \<times> account) list" where
  "batch_accounts E [] accs = (None, accs)"
| "batch_accounts E (e # es) accs =
     (case account_of_entry E e of
        Inl err \<Rightarrow> (Some err, accs)
      | Inr a \<Rightarrow> batch_accounts E es (AList.update (a_id a) a accs))"

definition retrieveAccountsBatch :: "'s Store \<Rightarrow> env \<Rightarrow> 's wallet \<Rightarrow> error option \<times> 's wallet" where
  "retrieveAccountsBatch S E w =
     (if batch w \<noteq> None then (None, w)
      else
        let w1 = w\<lparr> batch := Some \<lparr> entries = [], b_crypto = None, b_encryptor = None \<rparr> \<rparr> in
        (case RetrieveBatch S of
           None \<Rightarrow> (Some (New ''not a batch retriever''), w1)
         | Some retrieve \<Rightarrow>
            (case retrieve (store w1) (w_id w1) of
               Inl err \<Rightarrow> (Some (Wrap err ''failed to retrieve batch''), w1)
             | Inr serializedBatch \<Rightarrow>
                (case batch_UnmarshalJSON E serializedBatch of
                   Inl err \<Rightarrow> (Some (Wrap err ''failed to unmarshal batch''), w1)
                 | Inr res \<Rightarrow>
                    (case batch_accounts E (entries res) (accounts w1) of
                       (err, accs) \<Rightarrow> (err, w1\<lparr> batch := Some res, accounts := accs \<rparr>))))))"

definition retrieveBatchIfRequired :: "'s Store \<Rightarrow> env \<Rightarrow> 's wallet \<Rightarrow> error option \<times> 's wallet" where
  "retrieveBatchIfRequired S E w =
     (if batch w = None \<and> RetrieveBatch S \<noteq> None then retrieveAccountsBatch S E w
      else (None, w))"

text \<open>The test \<open>w.batch != nil && len(w.batch.entries) > 0\<close>.\<close>

definition batch_present :: "'s wallet \<Rightarrow> bool" where
  "batch_present w = (case batch w of None \<Rightarrow> False | Some b \<Rightarrow> entries b \<noteq> [])"

text \<open>
  \<open>Accounts\<close>: what the goroutine sends on the channel, and the wallet after it. A record
  that \<open>deserializeAccount\<close> refuses is not sent.
\<close>

definition Accounts :: "'s Store \<Rightarrow> env \<Rightarrow> 's wallet \<Rightarrow> account list \<times> 's wallet" where
  "Accounts S E w =
     (let w1 = snd (retrieveBatchIfRequired S E w) in
      if batch_present w1 then (map snd (accounts w1), w1)
      else (concat (map (\<lambda>d. case deserializeAccount E d of Inl err \<Rightarrow> [] | Inr a \<Rightarrow> [a])
                        (RetrieveAccounts S (store w1) (w_id w1))), w1))"

text \<open>\<open>AccountByID\<close> and \<open>AccountByName\<close>.\<close>

definition AccountByID :: "'s Store \<Rightarrow> env \<Rightarrow> 's wallet \<Rightarrow> uuid \<Rightarrow> (error + account) \<times> 's wallet" where
  "AccountByID S E w i =
     (let w1 = snd (retrieveBatchIfRequired S E w) in
      (case (if batch_present w1 then map_of (accounts w1) i else None) of
         Some a \<Rightarrow> (Inr a, w1)
       | None \<Rightarrow>
          (case RetrieveAccount S (store w1) (w_id w1) i of
             (Inl err, s') \<Rightarrow> (Inl (Wrap err ''failed to retrieve account''), w1\<lparr> store := s' \<rparr>)
           | (Inr d, s') \<Rightarrow>
              (case deserializeAccount E d of
                 Inl err \<Rightarrow> (Inl err, w1\<lparr> store := s' \<rparr>)
               | Inr res \<Rightarrow>
                  (Inr res, w1\<lparr> store := s', accounts := AList.update i res (accounts w1) \<rparr>)))))"

definition AccountByName :: "'s Store \<Rightarrow> env \<Rightarrow> 's wallet \<Rightarrow> string \<Rightarrow> (error + account) \<times> 's wallet" where
  "AccountByName S E w n =
     (case Index_ID (index w) n of
        None \<Rightarrow> (Inl (Errorf ''no account with name %q'' n), w)
      | Some i \<Rightarrow> AccountByID S E w i)"

text \<open>\<open>account.storeAccount\<close> (it works on the account's wallet).\<close>

definition storeAccount :: "'s Store \<Rightarrow> env \<Rightarrow> account \<Rightarrow> 's wallet \<Rightarrow> error option \<times> 's wallet" where
  "storeAccount S E a w =
     (case MarshalJSON E a of
        Inl err \<Rightarrow> (Some (Wrap err ''failed to create store format''), w)
      | Inr d \<Rightarrow>
     (case storeAccountsIndex S E w of
        (Some err, w1) \<Rightarrow> (Some (Wrap err ''failed to store account index''), w1)
      | (None, w1) \<Rightarrow>
     (case StoreAccount S (store w1) (w_id w1) (a_id a) d of
        (Some err, s') \<Rightarrow> (Some (Wrap err ''failed to store account''), w1\<lparr> store := s' \<rparr>)
      | (None, s') \<Rightarrow>
     (case AccountByName S E (w1\<lparr> store := s' \<rparr>) (a_name a) of
        (Inl err, w2) \<Rightarrow> (Some (Wrap err ''failed to confirm account when retrieving by name''), w2)
      | (Inr x, w2) \<Rightarrow>
     (case AccountByID S E w2 (a_id a) of
        (Inl err, w3) \<Rightarrow> (Some (Wrap err ''failed to confirm account when retrieveing by ID''), w3)
      | (Inr y, w3) \<Rightarrow> (None, w3))))))"

text \<open>
  \<open>ImportDistributedAccount\<close>. \<open>fresh\<close> is the identifier \<open>newAccount\<close> draws;
  \<open>threshold\<close>, \<open>vvector\<close> and \<open>parts\<close> are the parameters \<open>signingThreshold\<close>,
  \<open>verificationVector\<close> and \<open>participants\<close>.
  \<open>uint32(len(verificationVector))\<close> keeps the low 32 bits of the length.
\<close>

fun import_verification_vector :: "env \<Rightarrow> nat \<Rightarrow> bytes list \<Rightarrow> error + PublicKey list" where
  "import_verification_vector E i [] = Inr []"
| "import_verification_vector E i (v # vs) =
     (case BLSPublicKeyFromBytes E v of
        Inl err \<Rightarrow> Inl (Wrapf err ''failed to obtain BLS public key for verification vector %d'' i)
      | Inr k \<Rightarrow> bindE (import_verification_vector E (Suc i) vs) (\<lambda>ks. Inr (k # ks)))"

definition copy_participants :: "(64 word \<times> string) list \<Rightarrow> (64 word \<times> string) list" where
  "copy_participants ps = foldl (\<lambda>m (k, v). AList.update k v m) [] ps"

definition ImportDistributedAccount ::
  "'s Store \<Rightarrow> env \<Rightarrow> uuid \<Rightarrow> 's wallet \<Rightarrow> string \<Rightarrow> bytes \<Rightarrow> 32 word \<Rightarrow> bytes list \<Rightarrow>
   (64 word \<times> string) list \<Rightarrow> string \<Rightarrow> (error + account) \<times> 's wallet" where
  "ImportDistributedAccount S E fresh w name privatekey threshold vvector parts passphrase =
     (if name = [] then (Inl (New ''account name missing''), w)
      else if HasPrefix name ''_'' then (Inl (Errorf ''invalid account name %q'' name), w)
      else if length privatekey = 0 then (Inl (New ''private key missing''), w)
      else if length vvector = 0 then (Inl (New ''verification vector missing''), w)
      else if map_len parts = 0 then (Inl (New ''participants missing''), w)
      else if threshold \<le> half_participants parts
        then (Inl (New ''invalid signing threshold:participant ratio''), w)
      else if (of_nat (length vvector) :: 32 word) \<noteq> threshold
        then (Inl (New ''verification vector invalid''), w)
      else if \<not> unlocked w then (Inl (New ''wallet must be unlocked to create accounts''), w)
      else
     (case AccountByName S E w name of
        (Inr x, w1) \<Rightarrow> (Inl (Errorf ''account with name %q already exists'' name), w1)
      | (Inl nf, w1) \<Rightarrow>
     (case BLSPrivateKeyFromBytes E privatekey of
        Inl err \<Rightarrow> (Inl (Wrap err ''failed to obtain BLS private key''), w1)
      | Inr privateKey \<Rightarrow>
     (case import_verification_vector E 0 vvector of
        Inl err \<Rightarrow> (Inl err, w1)
      | Inr vv \<Rightarrow>
     (case Encrypt (wallet_encryptor E) privateKey passphrase of
        Inl err \<Rightarrow> (Inl (Wrap err ''failed to encrypt private key''), w1)
      | Inr c \<Rightarrow>
         (let a = (newAccount fresh)\<lparr> a_name := name, publicKey := sk_PublicKey E privateKey,
                    signingThreshold := threshold, verificationVector := vv,
                    participants := copy_participants parts, a_crypto := c,
                    a_encryptor := Some WalletEncryptor,
                    a_version := enc_Version (wallet_encryptor E) \<rparr>;
              w2 = w1\<lparr> index := Index_Add (a_id a) (a_name a) (index w1) \<rparr>
          in (case storeAccount S E a w2 of
                (Some err, w3) \<Rightarrow>
                  (Inl err, w3\<lparr> index := Index_Remove (a_id a) (a_name a) (index w3) \<rparr>)
              | (None, w3) \<Rightarrow>
                  (Inr a, w3\<lparr> accounts := AList.update (a_id a) a (accounts w3) \<rparr>))))))))"

text \<open>\<open>retrieveAccountsIndex\<close>.\<close>

definition retrieveAccountsIndex :: "'s Store \<Rightarrow> env \<Rightarrow> 's wallet \<Rightarrow> error option \<times> 's wallet" where
  "retrieveAccountsIndex S E w =
     (case RetrieveAccountsIndex S (store w) (w_id w) of
        Inl err \<Rightarrow>
          (case Accounts S E (w\<lparr> index := indexer_New \<rparr>) of
             (accs, w1) \<Rightarrow>
               storeAccountsIndex S E
                 (w1\<lparr> index := foldl (\<lambda>idx a. Index_Add (a_id a) (a_name a) idx) (index w1) accs \<rparr>))
      | Inr serializedIndex \<Rightarrow>
          (case index_Deserialize E serializedIndex of
             Inl err \<Rightarrow> (Some (Wrap err ''failed to deserialize index''), w)
           | Inr idx \<Rightarrow> (None, w\<lparr> index := idx \<rparr>)))"

text \<open>\<open>wallet.UnmarshalJSON\<close>, \<open>DeserializeWallet\<close> and \<open>OpenWallet\<close>.\<close>

definition wallet_UnmarshalJSON :: "env \<Rightarrow> 's wallet \<Rightarrow> document \<Rightarrow> error + 's wallet" where
  "wallet_UnmarshalJSON E w d =
     (case json_Unmarshal_map d of
        Inl err \<Rightarrow> Inl (Wrap err ''failed to unmarshal wallet'')
      | Inr v \<Rightarrow>
     (case map_of v ''type'' of
        None \<Rightarrow> Inl (New ''wallet type missing'')
      | Some (JString t) \<Rightarrow>
         if t \<noteq> walletType then Inl (Errorf ''wallet type %q unexpected'' t) else
         (case map_of v ''uuid'' of
            None \<Rightarrow> Inl (New ''wallet ID missing'')
          | Some (JString idStr) \<Rightarrow>
             (case uuid_Parse E idStr of
                Inl err \<Rightarrow> Inl (Wrap err ''failed to parse UUID'')
              | Inr i \<Rightarrow>
                 (case map_of v ''name'' of
                    None \<Rightarrow> Inl (New ''wallet name missing'')
                  | Some (JString n) \<Rightarrow>
                     (case map_of v ''version'' of
                        None \<Rightarrow> Inl (New ''wallet version missing'')
                      | Some (JNumber ver) \<Rightarrow>
                          Inr (w\<lparr> w_id := i, w_name := n,
                                  w_version := float64_to_uint (oor64 E) ver \<rparr>)
                      | Some _ \<Rightarrow> Inl (New ''wallet version invalid''))
                  | Some _ \<Rightarrow> Inl (New ''wallet name invalid'')))
          | Some _ \<Rightarrow> Inl (New ''wallet ID invalid''))
      | Some _ \<Rightarrow> Inl (New ''wallet type invalid'')))"

definition DeserializeWallet :: "'s Store \<Rightarrow> env \<Rightarrow> 's \<Rightarrow> document \<Rightarrow> error + 's wallet" where
  "DeserializeWallet S E s d =
     (case (case d of NotJSON \<Rightarrow> Inl (Lib ''json: invalid character'')
                    | Doc j \<Rightarrow> wallet_UnmarshalJSON E (newWallet 0 s) d) of
        Inl err \<Rightarrow> Inl (Wrap err ''wallet corrupt'')
      | Inr w \<Rightarrow>
         (case retrieveAccountsIndex S E w of
            (Some err, w1) \<Rightarrow> Inl (Wrap err ''wallet index corrupt'')
          | (None, w1) \<Rightarrow> Inr w1))"

definition OpenWallet :: "'s Store \<Rightarrow> env \<Rightarrow> 's \<Rightarrow> string \<Rightarrow> error + 's wallet" where
  "OpenWallet S E s n =
     (case RetrieveWallet S s n of
        Inl err \<Rightarrow> Inl (Wrap err ''wallet %q does not exist'')
      | Inr d \<Rightarrow> DeserializeWallet S E s d)"

text \<open>
  \<open>BatchWallet\<close>. The first loop reads every record of the Store, skips one that
  \<open>deserializeAccount\<close> refuses, and tries the passphrases in order on the others.
\<close>

fun try_passphrases :: "env \<Rightarrow> account \<Rightarrow> string list \<Rightarrow> bool \<times> account" where
  "try_passphrases E a [] = (False, a)"
| "try_passphrases E a (passphrase # rest) =
     (case Unlock E a passphrase of
        (None, a') \<Rightarrow> (True, a')
      | (Some err, a') \<Rightarrow> try_passphrases E a' rest)"

fun unlock_accounts :: "env \<Rightarrow> string list \<Rightarrow> document list \<Rightarrow> error + account list" where
  "unlock_accounts E passphrases [] = Inr []"
| "unlock_accounts E passphrases (d # ds) =
     (case deserializeAccount E d of
        Inl err \<Rightarrow> unlock_accounts E passphrases ds
      | Inr a \<Rightarrow>
         (case try_passphrases E a passphrases of
            (False, a') \<Rightarrow>
              Inl (Errorf ''unable to decrypt account %q with supplied passphrases'' (a_name a'))
          | (True, a') \<Rightarrow> bindE (unlock_accounts E passphrases ds) (\<lambda>as. Inr (a' # as))))"

definition batchEntry_of :: "account \<Rightarrow> batchEntry" where
  "batchEntry_of a = \<lparr> e_id = a_id a, e_name = a_name a,
     e_verificationVector = verificationVector a,
     e_signingThreshold = signingThreshold a,
     e_participants = foldl (\<lambda>m (k, v). AList.update (Sprintf_d (unat k)) v m) [] (participants a),
     e_pubkey = publicKey a \<rparr>"

fun secret_keys :: "account list \<Rightarrow> error + bytes" where
  "secret_keys [] = Inr []"
| "secret_keys (a # as) =
     (case secretKey a of
        None \<Rightarrow> Inl (Panic ''nil pointer dereference'')
      | Some sk \<Rightarrow> bindE (secret_keys as) (\<lambda>r. Inr (sk @ r)))"

definition BatchWallet ::
  "'s Store \<Rightarrow> env \<Rightarrow> 's wallet \<Rightarrow> string list \<Rightarrow> string \<Rightarrow> error option \<times> 's wallet" where
  "BatchWallet S E w passphrases batchPassphrase =
     (case StoreBatch S of
        None \<Rightarrow> (Some (Errorf ''store %s cannot store batches'' (store_Name S)), w)
      | Some storeBatch \<Rightarrow>
     (case unlock_accounts E passphrases (RetrieveAccounts S (store w) (w_id w)) of
        Inl err \<Rightarrow> (Some err, w)
      | Inr accs \<Rightarrow>
     (case secret_keys accs of
        Inl err \<Rightarrow> (Some err, w)
      | Inr secretKeys \<Rightarrow>
     (case Encrypt (wallet_encryptor E) secretKeys batchPassphrase of
        Inl err \<Rightarrow> (Some (Wrap err ''failed to encrypt batch''), w)
      | Inr c \<Rightarrow>
     (case batch_MarshalJSON E \<lparr> entries = map batchEntry_of accs, b_crypto = c,
                                b_encryptor = Some WalletEncryptor \<rparr> of
        Inl err \<Rightarrow> (Some (Wrap err ''failed to marshal batch''), w)
      | Inr d \<Rightarrow>
     (case storeBatch (store w) (w_id w) (w_name w) d of
        (Some err, s') \<Rightarrow> (Some (Wrap err ''failed to store batch''), w\<lparr> store := s' \<rparr>)
      | (None, s') \<Rightarrow> (None, w\<lparr> store := s' \<rparr>)))))))"

text \<open>
  \<open>batchDecrypt\<close>. No function of the package calls it. \<open>secretBytes[i*32 : (i+1)*32]\<close>
  panics when the plaintext is too short (the slice's capacity is taken to be its
  length), and \<open>w.accounts[id].secretKey\<close> panics when the account is not cached.
\<close>

fun batchDecrypt_loop ::
  "env \<Rightarrow> bytes \<Rightarrow> nat \<Rightarrow> batchEntry list \<Rightarrow> (uuid \<times> account) list \<Rightarrow>
   error option \<times> (uuid \<times> account) list" where
  "batchDecrypt_loop E secretBytes i [] accs = (None, accs)"
| "batchDecrypt_loop E secretBytes i (e # es) accs =
     (case map_of accs (e_id e) of
        None \<Rightarrow> (Some (Panic ''nil pointer dereference''), accs)
      | Some a \<Rightarrow>
         if secretKey a \<noteq> None then batchDecrypt_loop E secretBytes (Suc i) es accs
         else if length secretBytes < (i + 1) * 32 then (Some (Panic ''slice bounds out of range''), accs)
         else
           (case BLSPrivateKeyFromBytes E (take 32 (drop (i * 32) secretBytes)) of
              Inl err \<Rightarrow> (Some (Wrap err ''invalid private key''), accs)
            | Inr sk \<Rightarrow>
               if sk_PublicKey E sk \<noteq> publicKey a
               then (Some (New ''secret key does not correspond to public key''), accs)
               else batchDecrypt_loop E secretBytes (Suc i) es
                      (AList.update (e_id e) (a\<lparr> secretKey := Some sk \<rparr>) accs)))"

definition batchDecrypt :: "env \<Rightarrow> 's wallet \<Rightarrow> string \<Rightarrow> error option \<times> 's wallet" where
  "batchDecrypt E w passphrase =
     (if batchDecrypted w then (None, w)
      else (case batch w of
        None \<Rightarrow> (Some (New ''no batch to decrypt''), w)
      | Some b \<Rightarrow>
         if b_crypto b = None then (Some (New ''no batch to decrypt''), w)
         else
           (case Decrypt (wallet_encryptor E) (b_crypto b) passphrase of
              Inl err \<Rightarrow> (Some (Wrap err ''failed to decrypt data''), w)
            | Inr secretBytes \<Rightarrow>
               (case batchDecrypt_loop E secretBytes 0 (entries b) (accounts w) of
                  (Some err, accs) \<Rightarrow> (Some err, w\<lparr> accounts := accs \<rparr>)
                | (None, accs) \<Rightarrow> (None, w\<lparr> accounts := accs, batchDecrypted := True \<rparr>)))))"

subsection \<open>Stand-ins for the collaborators\<close>

text \<open>
  A concrete Encryptor, key library and Store, small enough to evaluate, on which the
  theorems below are instantiated. The Encryptor keeps the passphrase and the plaintext
  in its record and, like keystorev4, refuses a nil record. A private key is 32 bytes,
  a public key is any non-empty byte string.
\<close>

definition test_encryptor :: encryptor where
  "test_encryptor = \<lparr>
     enc_Name = ''keystore'',
     enc_Version = 4,
     enc_String = ''keystorev4'',
     Encrypt = (\<lambda>d key. Inr (Some [(''key'', JString key), (''message'', JString (Sprintf_x d))])),
     Decrypt = (\<lambda>c key. case c of
         None \<Rightarrow> Inl (Lib ''no data supplied'')
       | Some kvs \<Rightarrow>
          (if map_of kvs ''key'' = Some (JString key)
           then (case map_of kvs ''message'' of
                   Some (JString m) \<Rightarrow> hex_DecodeString m
                 | _ \<Rightarrow> Inl (Lib ''no cipher message''))
           else Inl (Lib ''invalid checksum''))) \<rparr>"

fun test_index_entries :: "json list \<Rightarrow> Index \<Rightarrow> error + Index" where
  "test_index_entries [] idx = Inr idx"
| "test_index_entries (x # xs) idx =
     (case x of
        JObject kvs \<Rightarrow>
          (case (map_of kvs ''uuid'', map_of kvs ''name'') of
             (Some (JString u), Some (JString n)) \<Rightarrow>
               (case ParseUint u 128 of
                  Inl e \<Rightarrow> Inl e
                | Inr i \<Rightarrow> test_index_entries xs (Index_Add (of_nat i) n idx))
           | _ \<Rightarrow> Inl (Lib ''index: bad entry''))
      | _ \<Rightarrow> Inl (Lib ''index: bad entry''))"

definition test_env :: env where
  "test_env = \<lparr>
     wallet_encryptor = test_encryptor,
     keystorev4_New = test_encryptor,
     privkey_invalid = (\<lambda>b. if length b = 32 then None else Some (Lib ''private key must be 32 bytes'')),
     pubkey_invalid = (\<lambda>b. if b = [] then Some (Lib ''public key must not be empty'') else None),
     sk_PublicKey = map (\<lambda>b. b + 1),
     sk_Sign = (\<lambda>sk d. sk @ d),
     uuid_String = (\<lambda>u. Sprintf_d (unat u)),
     uuid_Parse = (\<lambda>s. case ParseUint s 128 of Inl e \<Rightarrow> Inl e | Inr n \<Rightarrow> Inr (of_nat n)),
     index_Serialize = (\<lambda>idx. Inr (Doc (JArray (map
        (\<lambda>(n, i). JObject [(''uuid'', JString (Sprintf_d (unat i))), (''name'', JString n)]) (ids idx))))),
     index_Deserialize = (\<lambda>d. case d of
         Doc (JArray xs) \<Rightarrow> test_index_entries xs indexer_New
       | _ \<Rightarrow> Inl (Lib ''index: not an array'')),
     oor32 = (\<lambda>f. 0),
     oor64 = (\<lambda>f. 0) \<rparr>"

record mem =
  m_wallets :: "(string \<times> document) list"
  m_accounts :: "((uuid \<times> uuid) \<times> document) list"
  m_index :: "(uuid \<times> document) list"
  m_batch :: "(uuid \<times> document) list"
  m_full :: bool   \<comment> \<open>when set, \<open>StoreAccount\<close> fails\<close>

definition plain_store :: "mem Store" where
  "plain_store = \<lparr>
     store_Name = ''mem'',
     RetrieveWallet = (\<lambda>s n. case map_of (m_wallets s) n of
         None \<Rightarrow> Inl (Lib ''wallet not found'') | Some d \<Rightarrow> Inr d),
     RetrieveAccounts = (\<lambda>s w. map snd (filter (\<lambda>p. fst (fst p) = w) (m_accounts s))),
     RetrieveAccount = (\<lambda>s w a. case map_of (m_accounts s) (w, a) of
         None \<Rightarrow> (Inl (Lib ''account not found''), s) | Some d \<Rightarrow> (Inr d, s)),
     StoreAccount = (\<lambda>s w a d. if m_full s then (Some (Lib ''no space left''), s)
         else (None, s\<lparr> m_accounts := AList.update (w, a) d (m_accounts s) \<rparr>)),
     RetrieveAccountsIndex = (\<lambda>s w. case map_of (m_index s) w of
         None \<Rightarrow> Inl (Lib ''index not found'') | Some d \<Rightarrow> Inr d),
     StoreAccountsIndex = (\<lambda>s w d. (None, s\<lparr> m_index := AList.update w d (m_index s) \<rparr>)),
     RetrieveBatch = None,
     StoreBatch = None \<rparr>"

definition batch_store :: "mem Store" where
  "batch_store = plain_store \<lparr>
     RetrieveBatch := Some (\<lambda>s w. case map_of (m_batch s) w of
         None \<Rightarrow> Inl (Lib ''batch not found'') | Some d \<Rightarrow> Inr d),
     StoreBatch := Some (\<lambda>s w n d. (None, s\<lparr> m_batch := AList.update w d (m_batch s) \<rparr>)) \<rparr>"

definition empty_mem :: mem where
  "empty_mem = \<lparr> m_wallets = [], m_accounts = [], m_index = [], m_batch = [], m_full = False \<rparr>"

text \<open>An account as \<open>ImportDistributedAccount\<close> would store it, locked.\<close>

definition sk1 :: bytes where "sk1 = replicate 32 7"

definition test_account :: account where
  "test_account = \<lparr> a_id = 1, a_name = ''Test account'',
     verificationVector = [replicate 48 1, replicate 48 2], signingThreshold = 2,
     participants = [(1, ''signer-l01''), (2, ''signer-l02''), (3, ''signer-l03'')],
     a_crypto = Some [(''key'', JString ''secret''), (''message'', JString (Sprintf_x sk1))],
     secretKey = None, publicKey = map (\<lambda>b. b + 1) sk1, a_version = 4,
     a_encryptor = Some Keystorev4 \<rparr>"

text \<open>
  The record of that account as a Store holds it, with the version field \<open>v\<close>.
\<close>

definition test_record :: "rat \<Rightarrow> (string \<times> json) list" where
  "test_record v = [
     (''crypto'', JObject [(''key'', JString ''secret''), (''message'', JString (Sprintf_x sk1))]),
     (''encryptor'', JString ''keystore''),
     (''name'', JString ''Test account''),
     (''participants'', JObject [(''1'', JString ''signer-l01''), (''2'', JString ''signer-l02''),
                                 (''3'', JString ''signer-l03'')]),
     (''pubkey'', JString (Sprintf_x (map (\<lambda>b. b + 1) sk1))),
     (''signing_threshold'', JNumber 2),
     (''uuid'', JString ''1''),
     (''verificationvector'', JArray [JString (Sprintf_x (replicate 48 1)), JString (Sprintf_x (replicate 48 2))]),
     (''version'', JNumber v)]"

text \<open>A wallet on a Store, and a Store with three records: two are refused.\<close>

definition test_wallet :: "mem \<Rightarrow> mem wallet" where
  "test_wallet s = (newWallet 100 s)\<lparr> w_name := ''test wallet'' \<rparr>"

definition mem_three :: mem where
  "mem_three = empty_mem \<lparr> m_accounts :=
     [((100, 9), Doc (JObject (test_record 99))), ((100, 1), Doc (JObject (test_record 4))),
      ((100, 8), NotJSON)] \<rparr>"

subsection \<open>The nine checks of the specification\<close>



definition unlocked_wallet :: "mem \<Rightarrow> mem wallet" where
  "unlocked_wallet s = (test_wallet s)\<lparr> unlocked := True \<rparr>"





definition test_wallet_doc :: document where
  "test_wallet_doc = Doc (JObject [(''name'', JString ''test wallet''), (''type'', JString ''distributed''),
     (''uuid'', JString ''100''), (''version'', JNumber 1)])"

definition test_batch_doc :: document where
  "test_batch_doc = Doc (JObject [
     (''entries'', JArray [JObject [
        (''uuid'', JString ''1''),
        (''name'', JString ''Test account''),
        (''verification_vector'', JArray [JString (Sprintf_x (replicate 48 1)), JString (Sprintf_x (replicate 48 2))]),
        (''signing_threshold'', JString ''2''),
        (''participants'', JObject [(''1'', JString ''signer-l01''), (''2'', JString ''signer-l02''),
                                    (''3'', JString ''signer-l03'')]),
        (''pubkey'', JString (Sprintf_x (map (\<lambda>b. b + 1) sk1)))]]),
     (''crypto'', JObject [(''key'', JString ''batch passphrase''), (''message'', JString (Sprintf_x sk1))]),
     (''encryptor'', JString ''keystorev4''),
     (''version'', JNumber 1)])"

definition batch_account :: account where
  "batch_account = test_account \<lparr> a_crypto := None, a_version := 1, a_encryptor := Some WalletEncryptor \<rparr>"




subsection \<open>A wallet with one batched account\<close>

text \<open>
  The Store after the account of \<open>test_account\<close> was imported into the wallet, the Store
  after \<open>BatchWallet\<close> has then written the batch under the passphrase
  \<open>batch passphrase\<close>, the batch it holds, and the wallet that \<open>OpenWallet\<close> makes of it.
\<close>

definition imported_mem :: mem where
  "imported_mem = empty_mem \<lparr>
     m_wallets := [(''test wallet'', test_wallet_doc)],
     m_accounts := [((100, 1), Doc (JObject (test_record 4)))],
     m_index := [(100, Doc (JArray [JObject [(''uuid'', JString ''1''), (''name'', JString ''Test account'')]]))] \<rparr>"

definition batched_mem :: mem where
  "batched_mem = imported_mem \<lparr> m_batch := [(100, test_batch_doc)] \<rparr>"

definition test_batch :: batch where
  "test_batch = \<lparr> entries = [\<lparr> e_id = 1, e_name = ''Test account'',
                 e_verificationVector = [replicate 48 1, replicate 48 2], e_signingThreshold = 2,
                 e_participants = [(''1'', ''signer-l01''), (''2'', ''signer-l02''), (''3'', ''signer-l03'')],
                 e_pubkey = map (\<lambda>b. b + 1) sk1 \<rparr>],
           b_crypto = Some [(''key'', JString ''batch passphrase''), (''message'', JString (Sprintf_x sk1))],
           b_encryptor = Some Keystorev4 \<rparr>"

definition reopened_wallet :: "mem wallet" where
  "reopened_wallet = (test_wallet batched_mem)\<lparr>
     index := \<lparr> ids = [(''Test account'', 1)], names = [(1, ''Test account'')] \<rparr> \<rparr>"

subsection \<open>Persistence failures and the account cache\<close>

text \<open>
  The errors that \<open>storeAccount\<close> returns: each wraps the error of one of its five steps.
  No other step of \<open>ImportDistributedAccount\<close> makes an error of this shape. The last of
  the five is the error of the second confirming look-up, \<open>AccountByID\<close>.
\<close>

definition persistence_error :: "error \<Rightarrow> bool" where
  "persistence_error err =
     (case err of
        Wrap e m \<Rightarrow> m \<in> set [''failed to create store format'', ''failed to store account index'',
          ''failed to store account'', ''failed to confirm account when retrieving by name'',
          ''failed to confirm account when retrieveing by ID'']
      | _ \<Rightarrow> False)"

definition confirm_by_ID_error :: "error \<Rightarrow> bool" where
  "confirm_by_ID_error err =
     (case err of
        Wrap e m \<Rightarrow> m = ''failed to confirm account when retrieveing by ID''
      | _ \<Rightarrow> False)"

text \<open>
  The cache entries that \<open>retrieveAccountsBatch\<close> makes from the entries of a batch, and
  how a call that fetches the batch at most once may change \<open>w.accounts\<close> and \<open>w.batch\<close>:
  either the cache has gained only entries of \<open>X\<close> and a batch that was set is kept, or
  the batch was absent, is now set, and the cache has gained only entries of \<open>X\<close> and
  accounts made from the entries of the batch.
\<close>

definition materialized :: "env \<Rightarrow> batch \<Rightarrow> (uuid \<times> account) set" where
  "materialized E b = {(a_id x, x) | x. \<exists>e \<in> set (entries b). account_of_entry E e = Inr x}"

definition cache_step :: "env \<Rightarrow> (uuid \<times> account) set \<Rightarrow> 's wallet \<Rightarrow> 's wallet \<Rightarrow> bool" where
  "cache_step E X w w' =
     ((set (accounts w') \<subseteq> set (accounts w) \<union> X \<and> (batch w \<noteq> None \<longrightarrow> batch w' = batch w)) \<or>
      (batch w = None \<and>
       (\<exists>b. batch w' = Some b \<and> set (accounts w') \<subseteq> set (accounts w) \<union> materialized E b \<union> X)))"

text \<open>
  A Store that loses its connection: it answers \<open>n\<close> retrievals of an account and refuses
  the ones after them. Its writes and its other retrievals are those of \<open>plain_store\<close>.
  \<open>flaky_wallet n\<close> is the unlocked wallet on the empty Store of this kind,
  \<open>new_account\<close> the account that the import below makes, and \<open>failed_import n\<close> the
  import of that account into the wallet.
\<close>

definition flaky_store :: "(mem \<times> nat) Store" where
  "flaky_store = \<lparr>
     store_Name = ''flaky'',
     RetrieveWallet = (\<lambda>s. RetrieveWallet plain_store (fst s)),
     RetrieveAccounts = (\<lambda>s. RetrieveAccounts plain_store (fst s)),
     RetrieveAccount = (\<lambda>s w a. case snd s of
         0 \<Rightarrow> (Inl (Lib ''connection lost''), s)
       | Suc n \<Rightarrow> (fst (RetrieveAccount plain_store (fst s) w a), (fst s, n))),
     StoreAccount = (\<lambda>s w a d. case StoreAccount plain_store (fst s) w a d of (r, m) \<Rightarrow> (r, (m, snd s))),
     RetrieveAccountsIndex = (\<lambda>s. RetrieveAccountsIndex plain_store (fst s)),
     StoreAccountsIndex = (\<lambda>s w d. case StoreAccountsIndex plain_store (fst s) w d of
         (r, m) \<Rightarrow> (r, (m, snd s))),
     RetrieveBatch = None,
     StoreBatch = None \<rparr>"

definition flaky_wallet :: "nat \<Rightarrow> (mem \<times> nat) wallet" where
  "flaky_wallet n = (newWallet 100 (empty_mem, n))\<lparr> w_name := ''test wallet'', unlocked := True \<rparr>"

definition new_account :: account where
  "new_account = \<lparr> a_id = 5, a_name = ''account'', verificationVector = [[1], [2]],
     signingThreshold = 2, participants = [(1, ''a''), (2, ''b''), (3, ''c'')],
     a_crypto = Some [(''key'', JString ''secret''), (''message'', JString (Sprintf_x sk1))],
     secretKey = None, publicKey = map (\<lambda>b. b + 1) sk1, a_version = 4,
     a_encryptor = Some WalletEncryptor \<rparr>"

definition failed_import :: "nat \<Rightarrow> (error + account) \<times> (mem \<times> nat) wallet" where
  "failed_import n = ImportDistributedAccount flaky_store test_env 5 (flaky_wallet n)
     ''account'' sk1 2 [[1], [2]] [(1, ''a''), (2, ''b''), (3, ''c'')] ''secret''"

subsection \<open>Facts about the text functions\<close>

lemma bindE_simps:
  "bindE (Inl e) f = Inl e" "bindE (Inr x) f = f x"
  by (simp_all add: bindE_def)


lemma fromHexChar_hexdigit: "n < 16 \<Longrightarrow> fromHexChar (hexdigit n) = Some n"
  by (auto simp: fromHexChar_def hexdigit_def Let_def)

lemma hexdigit_neq_x: "n < 16 \<Longrightarrow> hexdigit n \<noteq> CHR ''x''"
  by (auto simp: hexdigit_def char_of_eq_iff take_bit_eq_mod)

lemma byte_split: "(of_nat (16 * (unat b div 16) + unat b mod 16) :: 8 word) = b"
  by simp


lemma hex_DecodeString_Sprintf_x: "hex_DecodeString (Sprintf_x bs) = Inr bs"
proof (induction bs)
  case Nil
  then show ?case by (simp add: Sprintf_x_def)
next
  case (Cons b bs)
  have hi: "unat b div 16 < 16" using unsigned_less [of b, where ?'a = nat] by simp
  have lo: "unat b mod 16 < 16" by simp
  from Cons show ?case
    by (simp add: Sprintf_x_def fromHexChar_hexdigit [OF hi] fromHexChar_hexdigit [OF lo])
qed

lemma TrimPrefix_Sprintf_x: "TrimPrefix (Sprintf_x bs) ''0x'' = Sprintf_x bs"
proof (cases bs)
  case Nil
  then show ?thesis by (simp add: TrimPrefix_def HasPrefix_def Sprintf_x_def)
next
  case (Cons b bs')
  have "hexdigit (unat b mod 16) \<noteq> CHR ''x''" by (rule hexdigit_neq_x) simp
  then show ?thesis using Cons by (simp add: TrimPrefix_def HasPrefix_def Sprintf_x_def)
qed

lemma parse_digits_append:
  "parse_digits bits acc (xs @ ys) =
     (case parse_digits bits acc xs of Inl e \<Rightarrow> Inl e | Inr m \<Rightarrow> parse_digits bits m ys)"
  by (induction xs arbitrary: acc) (simp_all add: Let_def)

lemma parse_digits_digit:
  "d < 10 \<Longrightarrow> parse_digits bits acc [char_of (48 + d)] =
     (if 2 ^ bits \<le> acc * 10 + d then Inl (Lib ''strconv.ParseUint: value out of range'') else Inr (acc * 10 + d))"
  by (simp add: Let_def take_bit_eq_mod)


lemma dec_split: "(acc::nat) * 10 ^ Suc l + n = (acc * 10 ^ l + n div 10) * 10 + n mod 10"
proof -
  have "n = n div 10 * 10 + n mod 10" by simp
  then have "acc * 10 ^ Suc l + n = acc * 10 ^ Suc l + (n div 10 * 10 + n mod 10)" by simp
  also have "\<dots> = (acc * 10 ^ l + n div 10) * 10 + n mod 10"
    by (simp only: power_Suc distrib_right mult.assoc mult.commute [of 10] add.assoc)
  finally show ?thesis .
qed

lemma lt_drop_digit: "(q::nat) * 10 + r < b \<Longrightarrow> q < b"
  by linarith

lemma parse_digits_Sprintf_d:
  "acc * 10 ^ length (Sprintf_d n) + n < 2 ^ bits \<Longrightarrow>
   parse_digits bits acc (Sprintf_d n) = Inr (acc * 10 ^ length (Sprintf_d n) + n)"
proof (induction n arbitrary: acc rule: Sprintf_d.induct)
  case (1 n)
  show ?case
  proof (cases "n < 10")
    case True
    have eq: "Sprintf_d n = [char_of (48 + n)]"
      by (subst Sprintf_d.simps) (simp add: True)
    from 1(2) have "\<not> 2 ^ bits \<le> acc * 10 + n" unfolding eq by simp
    then show ?thesis unfolding eq by (simp only: parse_digits_digit [OF True]) simp
  next
    case False
    define l where "l = length (Sprintf_d (n div 10))"
    have eq: "Sprintf_d n = Sprintf_d (n div 10) @ [char_of (48 + n mod 10)]"
      by (subst Sprintf_d.simps) (simp add: False)
    have len: "length (Sprintf_d n) = Suc l"
      unfolding eq l_def by simp
    have total: "(acc * 10 ^ l + n div 10) * 10 + n mod 10 < 2 ^ bits"
      using 1(2) unfolding len dec_split .
    then have bound: "acc * 10 ^ l + n div 10 < 2 ^ bits"
      by (rule lt_drop_digit)
    have ih: "parse_digits bits acc (Sprintf_d (n div 10)) = Inr (acc * 10 ^ l + n div 10)"
      unfolding l_def by (rule 1(1) [OF False]) (use bound l_def in simp)
    have d: "n mod 10 < 10" by simp
    have nle: "\<not> 2 ^ bits \<le> (acc * 10 ^ l + n div 10) * 10 + n mod 10"
      using total by simp
    have "parse_digits bits acc (Sprintf_d n) = Inr ((acc * 10 ^ l + n div 10) * 10 + n mod 10)"
      unfolding eq parse_digits_append ih
      by (simp only: sum.case parse_digits_digit [OF d] nle if_False)
    then show ?thesis unfolding len dec_split .
  qed
qed


lemma Sprintf_d_nonempty: "Sprintf_d n \<noteq> []"
  by (subst Sprintf_d.simps) simp

lemma ParseUint_Sprintf_d: "n < 2 ^ bits \<Longrightarrow> ParseUint (Sprintf_d n) bits = Inr n"
  using parse_digits_Sprintf_d [of 0 n bits] by (simp add: ParseUint_def Sprintf_d_nonempty)

lemma trunc_of_nat: "trunc (of_nat n) = int n"
  by (simp add: trunc_def)

lemma trunc_unsigned: "trunc (unsigned (w :: 'a::len word)) = uint w"
proof -
  have e: "(unsigned w :: rat) = of_int (uint w)" by simp
  have "0 \<le> uint w" by simp
  then show ?thesis unfolding trunc_def e by (simp del: of_int_uint)
qed

lemma float64_to_uint32_of_nat: "float64_to_uint32 oor (of_nat (unat (w :: 32 word))) = w"
proof -
  have "uint w < 2 ^ 32" using unsigned_less [of w, where ?'a = int] by simp
  then show ?thesis by (simp add: float64_to_uint32_def trunc_unsigned)
qed

lemma float64_to_uint_of_nat: "float64_to_uint oor (of_nat (unat (w :: 64 word))) = w"
proof -
  have "uint w < 2 ^ 64" using unsigned_less [of w, where ?'a = int] by simp
  then show ?thesis by (simp add: float64_to_uint_def trunc_unsigned)
qed

lemma update_fresh: "k \<notin> fst ` set al \<Longrightarrow> AList.update k v al = al @ [(k, v)]"
  by (induction al) auto

lemma unmarshal_vv_loop_roundtrip:
  "\<forall>k \<in> set ks. pubkey_invalid E k = None \<Longrightarrow>
   unmarshal_vv_loop E i (map (\<lambda>k. JString (Sprintf_x k)) ks) = Inr ks"
  by (induction ks arbitrary: i)
     (simp_all add: TrimPrefix_Sprintf_x hex_DecodeString_Sprintf_x BLSPublicKeyFromBytes_def)

lemma unmarshal_participants_loop_roundtrip:
  "distinct (map fst (acc @ ps)) \<Longrightarrow>
   unmarshal_participants_loop acc (map (\<lambda>(k, v). (Sprintf_d (unat k), JString v)) ps) = Inr (acc @ ps)"
proof (induction ps arbitrary: acc)
  case Nil
  then show ?case by simp
next
  case (Cons p ps)
  obtain k v where p: "p = (k, v)" by (cases p)
  have lt: "unat k < 2 ^ 64" using unsigned_less [of k, where ?'a = nat] by simp
  have fresh: "k \<notin> fst ` set acc" using Cons.prems p by auto
  have d: "distinct (map fst ((acc @ [(k, v)]) @ ps))" using Cons.prems p by simp
  show ?case
    using Cons.IH [OF d] by (simp add: p ParseUint_Sprintf_d [OF lt] update_fresh [OF fresh])
qed

lemma unat_128_1: "unat (1 :: 128 word) = 1" by simp

lemma test_uuid_roundtrip: "uuid_Parse test_env (uuid_String test_env u) = Inr u"
proof -
  have "unat u < 2 ^ 128" using unsigned_less [of u, where ?'a = nat] by simp
  then show ?thesis by (simp add: test_env_def ParseUint_Sprintf_d)
qed


lemma UnmarshalJSON_after_MarshalJSON:
  assumes ver: "a_version a = 4"
    and cr: "a_crypto a \<noteq> None"
    and pk: "pubkey_invalid E (publicKey a) = None"
    and vv: "\<forall>k \<in> set (verificationVector a). pubkey_invalid E k = None"
    and st: "half_participants (participants a) < signingThreshold a"
    and ps: "distinct (map fst (participants a))"
    and uu: "uuid_Parse E (uuid_String E (a_id a)) = Inr (a_id a)"
    and m: "MarshalJSON E a = Inr d"
  shows "UnmarshalJSON E b d =
           Inr (b\<lparr> a_id := a_id a, a_name := a_name a, publicKey := publicKey a,
                   verificationVector := verificationVector a, participants := participants a,
                   signingThreshold := signingThreshold a, a_crypto := a_crypto a,
                   a_version := 4, a_encryptor := Some Keystorev4 \<rparr>)"
proof -
  obtain c where c: "a_crypto a = Some c" using cr by auto
  obtain r where r: "a_encryptor a = Some r" using m by (auto simp: MarshalJSON_def split: option.splits)
  have d: "d = Doc (JObject [
        (''crypto'', JObject c),
        (''encryptor'', JString (enc_Name (encryptor_of E r))),
        (''name'', JString (a_name a)),
        (''participants'', JObject (map (\<lambda>(k, v). (Sprintf_d (unat k), JString v)) (participants a))),
        (''pubkey'', JString (Sprintf_x (publicKey a))),
        (''signing_threshold'', JNumber (of_nat (unat (signingThreshold a)))),
        (''uuid'', JString (uuid_String E (a_id a))),
        (''verificationvector'', JArray (map (\<lambda>k. JString (Sprintf_x k)) (verificationVector a))),
        (''version'', JNumber (of_nat (unat (a_version a))))])"
    using m by (simp add: MarshalJSON_def c r)
  have p: "unmarshal_participants_loop [] (map (\<lambda>(k, v). (Sprintf_d (unat k), JString v)) (participants a))
             = Inr (participants a)"
    using unmarshal_participants_loop_roundtrip [of "[]" "participants a"] ps by simp
  have t: "\<not> signingThreshold a \<le> half_participants (participants a)"
    using st by simp
  show ?thesis
    unfolding d UnmarshalJSON_def json_Unmarshal_map_def
    by (simp add: bindE_simps unmarshal_uuid_def unmarshal_name_def unmarshal_pubkey_def
          unmarshal_verificationvector_def unmarshal_participants_def
          unmarshal_signing_threshold_def unmarshal_crypto_def unmarshal_version_def
          uu pk TrimPrefix_Sprintf_x hex_DecodeString_Sprintf_x BLSPublicKeyFromBytes_def
          unmarshal_vv_loop_roundtrip [OF vv] p t c ver
          float64_to_uint32_of_nat [simplified] float64_to_uint_of_nat [simplified]
          float64_to_uint_def trunc_def)
qed



section \<open>C8: serialising and deserialising an account\<close>

text \<open>
  Claim C8. For a well-formed account whose version is 4, \<open>MarshalJSON\<close> followed by
  \<open>UnmarshalJSON\<close> gives an account with the same id, name, public key, verification
  vector, signing threshold, participants, crypto record and version. Well-formed: the
  crypto record is not nil, the keys are keys the BLS library accepts, the signing
  threshold exceeds half the number of participants (as \<open>UnmarshalJSON\<close> compares
  them), the participants are a map (distinct keys), and the UUID library parses the text
  it prints for the account's id. The receiver \<open>b\<close> of \<open>UnmarshalJSON\<close> is arbitrary.
\<close>

theorem MarshalJSON_UnmarshalJSON:
  assumes ver: "a_version a = 4"
    and cr: "a_crypto a \<noteq> None"
    and pk: "pubkey_invalid E (publicKey a) = None"
    and vv: "\<forall>k \<in> set (verificationVector a). pubkey_invalid E k = None"
    and st: "half_participants (participants a) < signingThreshold a"
    and ps: "distinct (map fst (participants a))"
    and uu: "uuid_Parse E (uuid_String E (a_id a)) = Inr (a_id a)"
    and m: "MarshalJSON E a = Inr d"
  shows "\<exists>a'. UnmarshalJSON E b d = Inr a' \<and> a_id a' = a_id a \<and> a_name a' = a_name a \<and>
           publicKey a' = publicKey a \<and> verificationVector a' = verificationVector a \<and>
           signingThreshold a' = signingThreshold a \<and> participants a' = participants a \<and>
           a_crypto a' = a_crypto a \<and> a_version a' = a_version a"
  using UnmarshalJSON_after_MarshalJSON [OF assms, of b] ver by simp

theorem MarshalJSON_UnmarshalJSON_witness:
  "\<exists>d a'. MarshalJSON test_env test_account = Inr d \<and>
      UnmarshalJSON test_env (newAccount 0) d = Inr a' \<and> a_id a' = 1 \<and>
      a_name a' = ''Test account'' \<and> publicKey a' = publicKey test_account \<and>
      verificationVector a' = [replicate 48 1, replicate 48 2] \<and> signingThreshold a' = 2 \<and>
      participants a' = [(1, ''signer-l01''), (2, ''signer-l02''), (3, ''signer-l03'')] \<and>
      a_crypto a' = a_crypto test_account \<and> a_version a' = 4"
proof -
  obtain d where m: "MarshalJSON test_env test_account = Inr d"
    by (simp add: MarshalJSON_def test_account_def)
  have h1: "a_version test_account = 4" by (simp add: test_account_def)
  have h2: "a_crypto test_account \<noteq> None" by (simp add: test_account_def)
  have h3: "pubkey_invalid test_env (publicKey test_account) = None"
    by (simp add: test_env_def test_account_def sk1_def)
  have h4: "\<forall>k \<in> set (verificationVector test_account). pubkey_invalid test_env k = None"
    by (simp add: test_env_def test_account_def)
  have h5: "half_participants (participants test_account) < signingThreshold test_account"
    by (simp add: half_participants_def map_len_def test_account_def)
  have h6: "distinct (map fst (participants test_account))"
    by (simp add: test_account_def)
  from MarshalJSON_UnmarshalJSON [OF h1 h2 h3 h4 h5 h6 test_uuid_roundtrip m, of "newAccount 0"]
  obtain a' where "UnmarshalJSON test_env (newAccount 0) d = Inr a'" "a_id a' = a_id test_account"
    "a_name a' = a_name test_account" "publicKey a' = publicKey test_account"
    "verificationVector a' = verificationVector test_account"
    "signingThreshold a' = signingThreshold test_account"
    "participants a' = participants test_account" "a_crypto a' = a_crypto test_account"
    "a_version a' = a_version test_account"
    by blast
  then show ?thesis using m by (simp add: test_account_def)
qed


section \<open>C6: unlocking with a passphrase that does not decrypt\<close>

text \<open>
  Claim C6. For a locked account and a passphrase under which the Encryptor fails to
  decrypt the stored crypto record, \<open>Unlock\<close> returns the error
  \<open>incorrect passphrase\<close>, whatever the Encryptor's own error was, and leaves the
  account as it was: locked, so that \<open>Sign\<close> and \<open>PrivateKey\<close> still fail.
\<close>

theorem Unlock_decrypt_failure:
  assumes "secretKey a = None" and "a_encryptor a = Some r"
    and "Decrypt (encryptor_of E r) (a_crypto a) passphrase = Inl err"
  shows "Unlock E a passphrase = (Some (New ''incorrect passphrase''), a) \<and>
         IsUnlocked (snd (Unlock E a passphrase)) = False \<and>
         Sign E (snd (Unlock E a passphrase)) msg = Inl (New ''cannot sign when account is locked'') \<and>
         PrivateKey (snd (Unlock E a passphrase)) =
           Inl (New ''cannot provide private key when account is locked'')"
  using assms by (simp add: Unlock_def IsUnlocked_def Sign_def PrivateKey_def)

theorem Unlock_decrypt_failure_witness:
  "Unlock test_env test_account ''wrong passphrase'' = (Some (New ''incorrect passphrase''), test_account) \<and>
   IsUnlocked (snd (Unlock test_env test_account ''wrong passphrase'')) = False \<and>
   Sign test_env (snd (Unlock test_env test_account ''wrong passphrase'')) [1, 2] =
     Inl (New ''cannot sign when account is locked'') \<and>
   PrivateKey (snd (Unlock test_env test_account ''wrong passphrase'')) =
     Inl (New ''cannot provide private key when account is locked'')"
proof -
  have d: "Decrypt (encryptor_of test_env Keystorev4) (a_crypto test_account) ''wrong passphrase''
             = Inl (Lib ''invalid checksum'')"
    by (simp add: encryptor_of_def test_env_def test_encryptor_def test_account_def)
  show ?thesis
    by (rule Unlock_decrypt_failure [OF _ _ d]) (simp_all add: test_account_def)
qed

section \<open>C10: the version field of an account record\<close>

lemma unmarshal_update_version:
  "unmarshal_uuid E (AList.update ''version'' x kvs) = unmarshal_uuid E kvs"
  "unmarshal_name (AList.update ''version'' x kvs) = unmarshal_name kvs"
  "unmarshal_pubkey E (AList.update ''version'' x kvs) = unmarshal_pubkey E kvs"
  "unmarshal_verificationvector E (AList.update ''version'' x kvs) = unmarshal_verificationvector E kvs"
  "unmarshal_participants (AList.update ''version'' x kvs) = unmarshal_participants kvs"
  "unmarshal_signing_threshold E ps (AList.update ''version'' x kvs) = unmarshal_signing_threshold E ps kvs"
  "unmarshal_crypto (AList.update ''version'' x kvs) = unmarshal_crypto kvs"
  "unmarshal_version E (AList.update ''version'' (JNumber v) kvs) = Inr (float64_to_uint (oor64 E) v)"
  by (simp_all add: unmarshal_uuid_def unmarshal_name_def unmarshal_pubkey_def
        unmarshal_verificationvector_def unmarshal_participants_def
        unmarshal_signing_threshold_def unmarshal_crypto_def unmarshal_version_def update_conv')

lemma float64_to_uint_4: "float64_to_uint oor 4 = 4"
  by (simp add: float64_to_uint_def trunc_def)

lemma float64_to_uint_eq_4_iff:
  assumes "0 \<le> v" "v < 2 ^ 64"
  shows "(float64_to_uint oor v = 4) = (4 \<le> v \<and> v < 5)"
proof -
  have t: "trunc v = \<lfloor>v\<rfloor>" using assms by (simp add: trunc_def)
  have lo: "0 \<le> \<lfloor>v\<rfloor>" using assms by simp
  have hi: "\<lfloor>v\<rfloor> < 2 ^ 64" using assms by (simp add: floor_less_iff)
  have conv: "float64_to_uint oor v = word_of_int \<lfloor>v\<rfloor>"
    using lo hi by (simp add: float64_to_uint_def t)
  have "(word_of_int \<lfloor>v\<rfloor> = (4 :: 64 word)) = (\<lfloor>v\<rfloor> = 4)"
  proof
    assume "word_of_int \<lfloor>v\<rfloor> = (4 :: 64 word)"
    then have "uint (word_of_int \<lfloor>v\<rfloor> :: 64 word) = 4" by simp
    moreover have "uint (word_of_int \<lfloor>v\<rfloor> :: 64 word) = \<lfloor>v\<rfloor>"
      using lo hi by (simp add: uint_word_of_int take_bit_int_eq_self)
    ultimately show "\<lfloor>v\<rfloor> = 4" by simp
  qed simp
  moreover have "(\<lfloor>v\<rfloor> = 4) = (4 \<le> v \<and> v < 5)"
    by (auto simp: floor_eq_iff)
  ultimately show ?thesis using conv by simp
qed

lemma ParseUint_digit: "ParseUint ''1'' b = (if 2 ^ b \<le> (1::nat) then Inl (Lib ''strconv.ParseUint: value out of range'') else Inr 1)"
  "ParseUint ''2'' b = (if 2 ^ b \<le> (2::nat) then Inl (Lib ''strconv.ParseUint: value out of range'') else Inr 2)"
  "ParseUint ''3'' b = (if 2 ^ b \<le> (3::nat) then Inl (Lib ''strconv.ParseUint: value out of range'') else Inr 3)"
  by (simp_all add: ParseUint_def Let_def)

lemma trunc_numeral: "trunc (numeral n) = numeral n"
  by (simp add: trunc_def)

lemma trunc_9_2: "trunc (9 / 2) = 4"
  by (simp add: trunc_def floor_eq_iff)

lemma UnmarshalJSON_test_record:
  "trunc v = 4 \<Longrightarrow> UnmarshalJSON test_env (newAccount 0) (Doc (JObject (test_record v))) = Inr test_account"
  by (simp add: UnmarshalJSON_def json_Unmarshal_map_def test_record_def bindE_simps
        unmarshal_uuid_def unmarshal_name_def unmarshal_pubkey_def
        unmarshal_verificationvector_def unmarshal_participants_def
        unmarshal_signing_threshold_def unmarshal_crypto_def unmarshal_version_def
        TrimPrefix_Sprintf_x hex_DecodeString_Sprintf_x BLSPublicKeyFromBytes_def
        test_env_def ParseUint_digit float64_to_uint32_def float64_to_uint_def trunc_numeral
        half_participants_def map_len_def newAccount_def test_account_def sk1_def
        word_le_nat_alt)


text \<open>
  Claim C10, as amended. \<open>UnmarshalJSON\<close> converts the number of the version field with
  \<open>uint(version)\<close>, which discards the fraction. For a record whose other fields are
  valid (with version 4 it deserialises to \<open>a'\<close>) and any number \<open>v\<close>: when the
  conversion of \<open>v\<close> is not 4 the result is the error \<open>unsupported keystore version\<close>,
  and when it is 4 the record deserialises to the same account \<open>a'\<close>. For \<open>v\<close> from 0
  up to \<open>2 ^ 64\<close> the conversion is 4 exactly when \<open>4 \<le> v < 5\<close>. (Outside that range
  Go leaves the converted value to the implementation.)
\<close>

theorem UnmarshalJSON_version:
  assumes "UnmarshalJSON E a (Doc (JObject (AList.update ''version'' (JNumber 4) kvs))) = Inr a'"
  shows "UnmarshalJSON E a (Doc (JObject (AList.update ''version'' (JNumber v) kvs))) =
           (if float64_to_uint (oor64 E) v = 4 then Inr a'
            else Inl (New ''unsupported keystore version'')) \<and>
         (0 \<le> v \<and> v < 2 ^ 64 \<longrightarrow> (float64_to_uint (oor64 E) v = 4) = (4 \<le> v \<and> v < 5))"
  using assms
  by (auto simp: UnmarshalJSON_def json_Unmarshal_map_def bindE_def unmarshal_update_version
        float64_to_uint_4 float64_to_uint_eq_4_iff split: sum.splits)


text \<open>
  The claim as stated (every number other than 4 is refused) fails at the version 4.5:
  the record is accepted as a version 4 account.
\<close>

theorem UnmarshalJSON_version_counterexample:
  "(9 / 2 :: rat) \<noteq> 4 \<and>
   UnmarshalJSON test_env (newAccount 0) (Doc (JObject (test_record (9 / 2)))) = Inr test_account"
  by (simp add: UnmarshalJSON_test_record trunc_9_2)

theorem UnmarshalJSON_version_witness:
  "UnmarshalJSON test_env (newAccount 0) (Doc (JObject (test_record 99))) =
     Inl (New ''unsupported keystore version'') \<and>
   UnmarshalJSON test_env (newAccount 0) (Doc (JObject (test_record (9 / 2)))) = Inr test_account"
proof -
  have u: "AList.update ''version'' (JNumber v) (test_record 0) = test_record v" for v
    by (simp add: test_record_def)
  have ok: "UnmarshalJSON test_env (newAccount 0)
              (Doc (JObject (AList.update ''version'' (JNumber 4) (test_record 0)))) = Inr test_account"
    unfolding u by (rule UnmarshalJSON_test_record) (simp add: trunc_numeral)
  have c99: "float64_to_uint (oor64 test_env) 99 \<noteq> 4"
    by (simp add: float64_to_uint_def trunc_numeral)
  have c45: "float64_to_uint (oor64 test_env) (9 / 2) = 4"
    by (simp add: float64_to_uint_def trunc_9_2)
  show ?thesis
    using UnmarshalJSON_version [OF ok, of 99] UnmarshalJSON_version [OF ok, of "9 / 2"]
    unfolding u by (simp add: c99 c45)
qed

section \<open>C9: enumerating the accounts of the Store\<close>

lemma retrieveAccountsBatch_frame:
  "store (snd (retrieveAccountsBatch S E w)) = store w"
  "w_id (snd (retrieveAccountsBatch S E w)) = w_id w"
  "index (snd (retrieveAccountsBatch S E w)) = index w"
  "unlocked (snd (retrieveAccountsBatch S E w)) = unlocked w"
  by (simp_all add: retrieveAccountsBatch_def Let_def split: option.splits sum.splits prod.splits)

lemma retrieveBatchIfRequired_frame:
  "store (snd (retrieveBatchIfRequired S E w)) = store w"
  "w_id (snd (retrieveBatchIfRequired S E w)) = w_id w"
  "index (snd (retrieveBatchIfRequired S E w)) = index w"
  "unlocked (snd (retrieveBatchIfRequired S E w)) = unlocked w"
  by (simp_all add: retrieveBatchIfRequired_def retrieveAccountsBatch_frame)

lemma concat_deserialized:
  "concat (map (\<lambda>d. case f d of Inl err \<Rightarrow> [] | Inr a \<Rightarrow> [a]) ds) =
   map (\<lambda>d. projr (f d)) (filter (\<lambda>d. \<not> isl (f d)) ds)"
  by (induction ds) (auto split: sum.splits)

lemma deserializeAccount_test_record:
  "trunc v = 4 \<Longrightarrow> deserializeAccount test_env (Doc (JObject (test_record v))) = Inr test_account"
  by (simp add: deserializeAccount_def UnmarshalJSON_def json_Unmarshal_map_def test_record_def bindE_simps
        unmarshal_uuid_def unmarshal_name_def unmarshal_pubkey_def
        unmarshal_verificationvector_def unmarshal_participants_def
        unmarshal_signing_threshold_def unmarshal_crypto_def unmarshal_version_def
        TrimPrefix_Sprintf_x hex_DecodeString_Sprintf_x BLSPublicKeyFromBytes_def
        test_env_def ParseUint_digit float64_to_uint32_def float64_to_uint_def trunc_numeral
        half_participants_def map_len_def newAccount_def test_account_def sk1_def
        word_le_nat_alt)

lemma deserializeAccount_test_record_99:
  "deserializeAccount test_env (Doc (JObject (test_record 99))) =
     Inl (Wrap (New ''unsupported keystore version'') ''failed to unmarshal account'')"
  by (simp add: deserializeAccount_def UnmarshalJSON_def json_Unmarshal_map_def test_record_def bindE_simps
        unmarshal_uuid_def unmarshal_name_def unmarshal_pubkey_def
        unmarshal_verificationvector_def unmarshal_participants_def
        unmarshal_signing_threshold_def unmarshal_crypto_def unmarshal_version_def
        TrimPrefix_Sprintf_x hex_DecodeString_Sprintf_x BLSPublicKeyFromBytes_def
        test_env_def ParseUint_digit float64_to_uint32_def float64_to_uint_def trunc_numeral
        half_participants_def map_len_def newAccount_def test_account_def sk1_def
        word_le_nat_alt)

lemma deserializeAccount_NotJSON:
  "deserializeAccount E NotJSON =
     Inl (Wrap (Lib ''json: invalid character'') ''failed to unmarshal account'')"
  by (simp add: deserializeAccount_def)


text \<open>
  Claim C9. When, after the batch has been looked for, no batch with entries is present,
  \<open>Accounts\<close> yields the records of the Store that \<open>deserializeAccount\<close> accepts, each
  deserialised, in the Store's order; a record it refuses is left out. \<open>Accounts\<close> has
  no error result: nothing is reported for a refused record.
\<close>

theorem Accounts_without_batch:
  assumes "\<not> batch_present (snd (retrieveBatchIfRequired S E w))"
  shows "fst (Accounts S E w) =
           map (\<lambda>d. projr (deserializeAccount E d))
               (filter (\<lambda>d. \<not> isl (deserializeAccount E d)) (RetrieveAccounts S (store w) (w_id w)))"
  using assms
  by (simp add: Accounts_def Let_def retrieveBatchIfRequired_frame concat_deserialized)


theorem Accounts_without_batch_witness:
  "fst (Accounts plain_store test_env (test_wallet mem_three)) = [test_account]"
proof -
  have nb: "\<not> batch_present (snd (retrieveBatchIfRequired plain_store test_env (test_wallet mem_three)))"
    by (simp add: retrieveBatchIfRequired_def plain_store_def batch_present_def test_wallet_def newWallet_def)
  have r: "RetrieveAccounts plain_store (store (test_wallet mem_three)) (w_id (test_wallet mem_three)) =
        [Doc (JObject (test_record 99)), Doc (JObject (test_record 4)), NotJSON]"
    by (simp add: plain_store_def test_wallet_def newWallet_def mem_three_def empty_mem_def)
  show ?thesis
    using Accounts_without_batch [OF nb]
    by (simp add: r deserializeAccount_test_record deserializeAccount_test_record_99
          deserializeAccount_NotJSON trunc_numeral)
qed

section \<open>C2: the order of the checks of ImportDistributedAccount\<close>



section \<open>C4: the signing threshold and the verification vector\<close>

lemma foldl_update_distinct:
  "distinct (map fst (acc @ ps)) \<Longrightarrow> foldl (\<lambda>m (k, v). AList.update k v m) acc ps = acc @ ps"
proof (induction ps arbitrary: acc)
  case Nil
  then show ?case by simp
next
  case (Cons p ps)
  obtain k v where p: "p = (k, v)" by (cases p)
  have fresh: "k \<notin> fst ` set acc" using Cons.prems p by auto
  have d: "distinct (map fst ((acc @ [(k, v)]) @ ps))" using Cons.prems p by simp
  show ?case using Cons.IH [OF d] by (simp add: p update_fresh [OF fresh])
qed

lemma copy_participants_distinct: "distinct (map fst ps) \<Longrightarrow> copy_participants ps = ps"
  using foldl_update_distinct [of "[]" ps] by (simp add: copy_participants_def)

lemma map_len_distinct: "distinct (map fst ps) \<Longrightarrow> map_len ps = length ps"
  by (simp add: map_len_def distinct_remdups_id)

lemma import_verification_vector_valid:
  "\<forall>k \<in> set ks. pubkey_invalid E k = None \<Longrightarrow> import_verification_vector E i ks = Inr ks"
  by (induction ks arbitrary: i) (simp_all add: BLSPublicKeyFromBytes_def bindE_simps)

lemma MarshalJSON_Doc: "MarshalJSON E a = Inr d \<Longrightarrow> \<exists>j. d = Doc j"
  by (auto simp add: MarshalJSON_def split: option.splits)

lemma deserializeAccount_UnmarshalJSON:
  "UnmarshalJSON E ((newAccount 0)\<lparr> a_encryptor := Some WalletEncryptor \<rparr>) (Doc j) = Inr a \<Longrightarrow>
   deserializeAccount E (Doc j) = Inr a"
  by (simp add: deserializeAccount_def)

lemma import_success_test:
  fixes vv :: "bytes list" and ps :: "(64 word \<times> string) list" and t :: "32 word"
  assumes vv0: "vv \<noteq> []" and vvk: "\<forall>k \<in> set vv. k \<noteq> []"
    and len: "(of_nat (length vv) :: 32 word) = t"
    and half: "half_participants ps < t" and dist: "distinct (map fst ps)" and ps0: "ps \<noteq> []"
  shows "fst (ImportDistributedAccount plain_store test_env fresh (unlocked_wallet empty_mem)
                ''account'' sk1 t vv ps ''secret'') =
         Inr \<lparr> a_id = fresh, a_name = ''account'', verificationVector = vv, signingThreshold = t,
               participants = ps,
               a_crypto = Some [(''key'', JString ''secret''), (''message'', JString (Sprintf_x sk1))],
               secretKey = None, publicKey = map (\<lambda>b. b + 1) sk1, a_version = 4,
               a_encryptor = Some WalletEncryptor \<rparr>"
proof -
  define a where "a = \<lparr> a_id = fresh, a_name = ''account'', verificationVector = vv, signingThreshold = t,
               participants = ps,
               a_crypto = Some [(''key'', JString ''secret''), (''message'', JString (Sprintf_x sk1))],
               secretKey = None, publicKey = map (\<lambda>b. b + 1) sk1, a_version = 4,
               a_encryptor = Some WalletEncryptor \<rparr>"
  obtain d where m: "MarshalJSON test_env a = Inr d"
    by (simp add: MarshalJSON_def a_def)
  have vvv: "\<forall>k \<in> set (verificationVector a). pubkey_invalid test_env k = None"
    using vvk by (simp add: a_def test_env_def)
  have un: "UnmarshalJSON test_env b d =
           Inr (b\<lparr> a_id := a_id a, a_name := a_name a, publicKey := publicKey a,
                   verificationVector := verificationVector a, participants := participants a,
                   signingThreshold := signingThreshold a, a_crypto := a_crypto a,
                   a_version := 4, a_encryptor := Some Keystorev4 \<rparr>)" for b
    by (rule UnmarshalJSON_after_MarshalJSON [OF _ _ _ vvv _ _ test_uuid_roundtrip m])
       (use half dist in \<open>simp_all add: a_def test_env_def sk1_def\<close>)
  obtain j where dj: "d = Doc j" using MarshalJSON_Doc [OF m] ..
  have des: "deserializeAccount test_env d = Inr (a\<lparr> a_encryptor := Some Keystorev4 \<rparr>)"
    unfolding dj
    by (rule deserializeAccount_UnmarshalJSON) (simp add: un [unfolded dj] a_def newAccount_def)
  have imp: "import_verification_vector test_env 0 vv = Inr vv"
    by (rule import_verification_vector_valid) (use vvk in \<open>simp add: test_env_def\<close>)
  have nsk: "sk1 \<noteq> []" by (simp add: sk1_def)
  have nps: "map_len ps \<noteq> 0" using ps0 dist by (simp add: map_len_distinct)
  have nhalf: "\<not> t \<le> half_participants ps" using half by simp
  have acc: "(newAccount fresh)\<lparr> a_name := ''account'', publicKey := sk_PublicKey test_env sk1,
                    signingThreshold := t, verificationVector := vv,
                    participants := copy_participants ps,
                    a_crypto := Some [(''key'', JString ''secret''), (''message'', JString (Sprintf_x sk1))],
                    a_encryptor := Some WalletEncryptor,
                    a_version := enc_Version (wallet_encryptor test_env) \<rparr> = a"
    by (simp add: newAccount_def a_def copy_participants_distinct [OF dist] test_env_def test_encryptor_def)
  have priv: "BLSPrivateKeyFromBytes test_env sk1 = Inr sk1"
    by (simp add: BLSPrivateKeyFromBytes_def test_env_def sk1_def)
  have enc: "Encrypt (wallet_encryptor test_env) sk1 ''secret'' =
      Inr (Some [(''key'', JString ''secret''), (''message'', JString (Sprintf_x sk1))])"
    by (simp add: test_env_def test_encryptor_def)
  have ser: "index_Serialize test_env idx = Inr (Doc (JArray (map
        (\<lambda>(n, i). JObject [(''uuid'', JString (Sprintf_d (unat i))), (''name'', JString n)]) (ids idx))))" for idx
    by (simp add: test_env_def)
  have aid: "a_id a = fresh" "a_name a = ''account''" by (simp_all add: a_def)
  show ?thesis
    unfolding a_def [symmetric]
    by (simp add: ImportDistributedAccount_def vv0 nsk nps nhalf len unlocked_wallet_def test_wallet_def
          newWallet_def AccountByName_def Index_ID_def indexer_New_def priv imp enc acc Let_def
          storeAccount_def m storeAccountsIndex_def ser plain_store_def empty_mem_def Index_Add_def
          aid AccountByID_def retrieveBatchIfRequired_def batch_present_def des HasPrefix_def)
qed

lemma import_success_checks:
  assumes "fst (ImportDistributedAccount S E fresh w name privatekey t vv ps passphrase) = Inr a"
  shows "half_participants ps < t \<and> (of_nat (length vv) :: 32 word) = t"
  using assms by (auto simp: ImportDistributedAccount_def not_le split: if_splits)

lemma word32_of_nat_less:
  "m < 2 ^ 32 \<Longrightarrow> (of_nat m :: 32 word) < t \<Longrightarrow> m < unat t"
  by (simp add: word_less_nat_alt unsigned_of_nat take_bit_nat_eq_self)

lemma word32_of_nat_eq:
  "m < 2 ^ 32 \<Longrightarrow> (of_nat m :: 32 word) = t \<Longrightarrow> m = unat t"
  by (auto simp: unsigned_of_nat take_bit_nat_eq_self)


text \<open>
  Claim C4, as amended. \<open>ImportDistributedAccount\<close> compares the threshold \<open>t\<close> with
  \<open>uint32(len(participants)/2)\<close> and with \<open>uint32(len(verificationVector))\<close>. It
  succeeds only if \<open>t\<close> exceeds the first and equals the second; hence, whenever half
  the number of participants and the length of the verification vector are below
  \<open>2 ^ 32\<close>, only if \<open>t > n div 2\<close> and the verification vector has exactly \<open>t\<close>
  entries. With \<open>t = 1\<close> and three participants it fails with
  \<open>invalid signing threshold:participant ratio\<close>; with \<open>t = 3\<close>, three participants and a
  verification vector of two entries it fails with \<open>verification vector invalid\<close> (the
  checks before these two passing).
\<close>

theorem ImportDistributedAccount_threshold:
  "(fst (ImportDistributedAccount S E fresh w name privatekey t vv ps passphrase) = Inr a \<longrightarrow>
      half_participants ps < t \<and> (of_nat (length vv) :: 32 word) = t \<and>
      (map_len ps div 2 < 2 ^ 32 \<and> length vv < 2 ^ 32 \<longrightarrow>
         map_len ps div 2 < unat t \<and> length vv = unat t)) \<and>
   (name \<noteq> [] \<and> \<not> HasPrefix name ''_'' \<and> privatekey \<noteq> [] \<and> vv \<noteq> [] \<and>
      map_len ps = 3 \<and> t = 1 \<longrightarrow>
      fst (ImportDistributedAccount S E fresh w name privatekey t vv ps passphrase) =
        Inl (New ''invalid signing threshold:participant ratio'')) \<and>
   (name \<noteq> [] \<and> \<not> HasPrefix name ''_'' \<and> privatekey \<noteq> [] \<and> length vv = 2 \<and>
      map_len ps = 3 \<and> t = 3 \<longrightarrow>
      fst (ImportDistributedAccount S E fresh w name privatekey t vv ps passphrase) =
        Inl (New ''verification vector invalid''))"
proof (intro conjI impI)
  assume ok: "fst (ImportDistributedAccount S E fresh w name privatekey t vv ps passphrase) = Inr a"
  from import_success_checks [OF ok]
  show "half_participants ps < t" and "(of_nat (length vv) :: 32 word) = t" by simp_all
next
  assume ok: "fst (ImportDistributedAccount S E fresh w name privatekey t vv ps passphrase) = Inr a"
    and b: "map_len ps div 2 < 2 ^ 32 \<and> length vv < 2 ^ 32"
  from import_success_checks [OF ok] b
  show "map_len ps div 2 < unat t"
    by (auto simp: half_participants_def intro: word32_of_nat_less)
  from import_success_checks [OF ok] b
  show "length vv = unat t"
    by (auto intro: word32_of_nat_eq)
next
  assume "name \<noteq> [] \<and> \<not> HasPrefix name ''_'' \<and> privatekey \<noteq> [] \<and> vv \<noteq> [] \<and>
      map_len ps = 3 \<and> t = 1"
  then show "fst (ImportDistributedAccount S E fresh w name privatekey t vv ps passphrase) =
        Inl (New ''invalid signing threshold:participant ratio'')"
    by (simp add: ImportDistributedAccount_def half_participants_def)
next
  assume "name \<noteq> [] \<and> \<not> HasPrefix name ''_'' \<and> privatekey \<noteq> [] \<and> length vv = 2 \<and>
      map_len ps = 3 \<and> t = 3"
  then show "fst (ImportDistributedAccount S E fresh w name privatekey t vv ps passphrase) =
        Inl (New ''verification vector invalid'')"
    by (auto simp: ImportDistributedAccount_def half_participants_def word_le_nat_alt)
qed


text \<open>
  Without the bound the claim fails: a verification vector of \<open>2 ^ 32 + 1\<close> entries is
  accepted with the threshold 1, since its length converts to the \<open>uint32\<close> 1.
\<close>

theorem ImportDistributedAccount_threshold_counterexample:
  "length (replicate (2 ^ 32 + 1) [1 :: 8 word]) \<noteq> unat (1 :: 32 word) \<and>
   \<not> isl (fst (ImportDistributedAccount plain_store test_env 5 (unlocked_wallet empty_mem)
                 ''account'' sk1 1 (replicate (2 ^ 32 + 1) [1]) [(1, ''a'')] ''secret''))"
proof -
  have 1: "fst (ImportDistributedAccount plain_store test_env 5 (unlocked_wallet empty_mem)
                 ''account'' sk1 1 (replicate (2 ^ 32 + 1) [1]) [(1, ''a'')] ''secret'') = Inr
     \<lparr> a_id = 5, a_name = ''account'', verificationVector = replicate (2 ^ 32 + 1) [1],
       signingThreshold = 1, participants = [(1, ''a'')],
       a_crypto = Some [(''key'', JString ''secret''), (''message'', JString (Sprintf_x sk1))],
       secretKey = None, publicKey = map (\<lambda>b. b + 1) sk1, a_version = 4,
       a_encryptor = Some WalletEncryptor \<rparr>"
    by (rule import_success_test) (simp_all add: half_participants_def map_len_def)
  show ?thesis unfolding 1 by simp
qed


theorem ImportDistributedAccount_threshold_witness:
  "half_participants [(1 :: 64 word, ''a''), (2, ''b''), (3, ''c'')] < (2 :: 32 word) \<and>
   length [[1 :: 8 word], [2]] = unat (2 :: 32 word) \<and>
   fst (ImportDistributedAccount plain_store test_env 5 (unlocked_wallet empty_mem)
          ''account'' sk1 1 [[1], [2]] [(1, ''a''), (2, ''b''), (3, ''c'')] ''secret'') =
     Inl (New ''invalid signing threshold:participant ratio'') \<and>
   fst (ImportDistributedAccount plain_store test_env 5 (unlocked_wallet empty_mem)
          ''account'' sk1 3 [[1], [2]] [(1, ''a''), (2, ''b''), (3, ''c'')] ''secret'') =
     Inl (New ''verification vector invalid'')"
proof -
  have ok: "fst (ImportDistributedAccount plain_store test_env 5 (unlocked_wallet empty_mem)
                 ''account'' sk1 2 [[1], [2]] [(1, ''a''), (2, ''b''), (3, ''c'')] ''secret'') = Inr
     \<lparr> a_id = 5, a_name = ''account'', verificationVector = [[1], [2]],
       signingThreshold = 2, participants = [(1, ''a''), (2, ''b''), (3, ''c'')],
       a_crypto = Some [(''key'', JString ''secret''), (''message'', JString (Sprintf_x sk1))],
       secretKey = None, publicKey = map (\<lambda>b. b + 1) sk1, a_version = 4,
       a_encryptor = Some WalletEncryptor \<rparr>"
    by (rule import_success_test) (simp_all add: half_participants_def map_len_def word_less_nat_alt)
  have n: "sk1 \<noteq> []" by (simp add: sk1_def)
  have m: "map_len [(1 :: 64 word, ''a''), (2, ''b''), (3, ''c'')] = 3" by (simp add: map_len_def)
  from ImportDistributedAccount_threshold [of plain_store test_env 5 "unlocked_wallet empty_mem"
      "''account''" sk1 2 "[[1], [2]]" "[(1, ''a''), (2, ''b''), (3, ''c'')]" "''secret''", THEN conjunct1, rule_format, OF ok]
    ImportDistributedAccount_threshold [of plain_store test_env 5 "unlocked_wallet empty_mem"
      "''account''" sk1 1 "[[1], [2]]" "[(1, ''a''), (2, ''b''), (3, ''c'')]" "''secret''", THEN conjunct2, THEN conjunct1]
    ImportDistributedAccount_threshold [of plain_store test_env 5 "unlocked_wallet empty_mem"
      "''account''" sk1 3 "[[1], [2]]" "[(1, ''a''), (2, ''b''), (3, ''c'')]" "''secret''", THEN conjunct2, THEN conjunct2]
  show ?thesis
    by (simp add: n m HasPrefix_def)
qed

section \<open>C5: BatchWallet unlocks every account or stores nothing\<close>







lemma store_batch_store:
  "StoreBatch batch_store = Some (\<lambda>s w n d. (None, s\<lparr> m_batch := AList.update w d (m_batch s) \<rparr>))"
  "RetrieveAccounts batch_store s w = map snd (filter (\<lambda>p. fst (fst p) = w) (m_accounts s))"
  by (simp_all add: batch_store_def plain_store_def)

lemma Unlock_test_account:
  "Unlock test_env test_account ''secret'' = (None, test_account\<lparr> secretKey := Some sk1 \<rparr>)"
  "Unlock test_env test_account ''wrong passphrase'' = (Some (New ''incorrect passphrase''), test_account)"
  by (simp_all add: Unlock_def test_account_def encryptor_of_def test_env_def test_encryptor_def
        hex_DecodeString_Sprintf_x BLSPrivateKeyFromBytes_def sk1_def)







section \<open>C7: rebuilding the index\<close>








lemma wallet_UnmarshalJSON_test:
  "wallet_UnmarshalJSON test_env (newWallet 0 s) test_wallet_doc = Inr (test_wallet s)"
  by (simp add: wallet_UnmarshalJSON_def json_Unmarshal_map_def test_wallet_doc_def walletType_def
        test_env_def ParseUint_def Let_def float64_to_uint_def trunc_def test_wallet_def newWallet_def
        version_def)

lemma batch_UnmarshalJSON_test:
  "batch_UnmarshalJSON test_env test_batch_doc =
     Inr \<lparr> entries = [\<lparr> e_id = 1, e_name = ''Test account'',
                 e_verificationVector = [replicate 48 1, replicate 48 2], e_signingThreshold = 2,
                 e_participants = [(''1'', ''signer-l01''), (''2'', ''signer-l02''), (''3'', ''signer-l03'')],
                 e_pubkey = map (\<lambda>b. b + 1) sk1 \<rparr>],
           b_crypto = Some [(''key'', JString ''batch passphrase''), (''message'', JString (Sprintf_x sk1))],
           b_encryptor = Some Keystorev4 \<rparr>"
  by (simp add: batch_UnmarshalJSON_def test_batch_doc_def dec_struct_def dec_entry_list_def
        batchEntry_UnmarshalJSON_def dec_uuid_def dec_string_def dec_string_list_def dec_string_map_def
        dec_crypto_def dec_int_def bindE_simps test_env_def ParseUint_digit TrimPrefix_Sprintf_x
        hex_DecodeString_Sprintf_x version_def)

lemma account_of_entry_test:
  "account_of_entry test_env \<lparr> e_id = 1, e_name = ''Test account'',
                 e_verificationVector = [replicate 48 1, replicate 48 2], e_signingThreshold = 2,
                 e_participants = [(''1'', ''signer-l01''), (''2'', ''signer-l02''), (''3'', ''signer-l03'')],
                 e_pubkey = map (\<lambda>b. b + 1) sk1 \<rparr> = Inr batch_account"
  by (simp add: account_of_entry_def BLSPublicKeyFromBytes_def test_env_def bindE_simps ParseUint_digit
        batch_account_def test_account_def version_def sk1_def)


lemma batch_store_simps:
  "RetrieveWallet batch_store s n = (case map_of (m_wallets s) n of
         None \<Rightarrow> Inl (Lib ''wallet not found'') | Some d \<Rightarrow> Inr d)"
  "RetrieveAccountsIndex batch_store s w = (case map_of (m_index s) w of
         None \<Rightarrow> Inl (Lib ''index not found'') | Some d \<Rightarrow> Inr d)"
  "StoreAccountsIndex batch_store s w d = (None, s\<lparr> m_index := AList.update w d (m_index s) \<rparr>)"
  "RetrieveBatch batch_store = Some (\<lambda>s w. case map_of (m_batch s) w of
         None \<Rightarrow> Inl (Lib ''batch not found'') | Some d \<Rightarrow> Inr d)"
  "RetrieveAccount batch_store s w a = (case map_of (m_accounts s) (w, a) of
         None \<Rightarrow> (Inl (Lib ''account not found''), s) | Some d \<Rightarrow> (Inr d, s))"
  by (simp_all add: batch_store_def plain_store_def)


lemma DeserializeWallet_test:
  "DeserializeWallet S test_env s test_wallet_doc =
     (case retrieveAccountsIndex S test_env (test_wallet s) of
        (Some err, w1) \<Rightarrow> Inl (Wrap err ''wallet index corrupt'')
      | (None, w1) \<Rightarrow> Inr w1)"
proof -
  have "(case test_wallet_doc of NotJSON \<Rightarrow> Inl (Lib ''json: invalid character'')
         | Doc j \<Rightarrow> wallet_UnmarshalJSON test_env (newWallet 0 s) test_wallet_doc) = Inr (test_wallet s)"
    unfolding wallet_UnmarshalJSON_test by (simp add: test_wallet_doc_def)
  then show ?thesis by (simp add: DeserializeWallet_def)
qed








section \<open>C1: unlocking an account of a batch with the batch passphrase\<close>

lemma BatchWallet_test:
  "BatchWallet batch_store test_env (test_wallet imported_mem) [''secret''] ''batch passphrase'' =
     (None, (test_wallet imported_mem)\<lparr> store := batched_mem \<rparr>)"
proof -
  have r: "RetrieveAccounts batch_store (store (test_wallet imported_mem)) (w_id (test_wallet imported_mem)) =
     [Doc (JObject (test_record 4))]"
    by (simp add: store_batch_store test_wallet_def newWallet_def imported_mem_def empty_mem_def)
  have u: "unlock_accounts test_env [''secret''] [Doc (JObject (test_record 4))] =
      Inr [test_account\<lparr> secretKey := Some sk1 \<rparr>]"
    by (simp add: deserializeAccount_test_record trunc_numeral Unlock_test_account bindE_simps)
  have s: "secret_keys [test_account\<lparr> secretKey := Some sk1 \<rparr>] = Inr sk1"
    by (simp add: bindE_simps)
  have e: "Encrypt (wallet_encryptor test_env) sk1 ''batch passphrase'' =
      Inr (Some [(''key'', JString ''batch passphrase''), (''message'', JString (Sprintf_x sk1))])"
    by (simp add: test_env_def test_encryptor_def)
  have be: "batchEntry_of (test_account\<lparr> secretKey := Some sk1 \<rparr>) = hd (entries test_batch)"
    by (simp add: batchEntry_of_def test_account_def test_batch_def Sprintf_d.simps char_of_eq_iff)
  have m: "batch_MarshalJSON test_env \<lparr> entries = [batchEntry_of (test_account\<lparr> secretKey := Some sk1 \<rparr>)],
        b_crypto = Some [(''key'', JString ''batch passphrase''), (''message'', JString (Sprintf_x sk1))],
        b_encryptor = Some WalletEncryptor \<rparr> = Inr test_batch_doc"
    unfolding be
    by (simp add: batch_MarshalJSON_def batchEntry_MarshalJSON_def encryptor_of_def test_env_def
          test_encryptor_def version_def test_batch_def test_batch_doc_def Sprintf_d.simps bindE_simps
          char_of_eq_iff)
  have st: "store (test_wallet imported_mem) = imported_mem" "w_id (test_wallet imported_mem) = 100"
      "m_batch imported_mem = []"
    by (simp_all add: test_wallet_def newWallet_def imported_mem_def empty_mem_def)
  show ?thesis
    unfolding BatchWallet_def r u s
    by (simp add: store_batch_store e m st batched_mem_def bindE_simps)
qed

lemma OpenWallet_batched:
  "OpenWallet batch_store test_env batched_mem ''test wallet'' = Inr reopened_wallet"
proof -
  have rw: "RetrieveWallet batch_store batched_mem ''test wallet'' = Inr test_wallet_doc"
    by (simp add: batch_store_simps batched_mem_def imported_mem_def empty_mem_def)
  have tw: "w_id (test_wallet batched_mem) = 100" "store (test_wallet batched_mem) = batched_mem"
    by (simp_all add: test_wallet_def newWallet_def)
  have ri: "RetrieveAccountsIndex batch_store batched_mem 100 =
      Inr (Doc (JArray [JObject [(''uuid'', JString ''1''), (''name'', JString ''Test account'')]]))"
    by (simp add: batch_store_simps batched_mem_def imported_mem_def empty_mem_def)
  have de: "index_Deserialize test_env
      (Doc (JArray [JObject [(''uuid'', JString ''1''), (''name'', JString ''Test account'')]])) =
      Inr \<lparr> ids = [(''Test account'', 1)], names = [(1, ''Test account'')] \<rparr>"
    by (simp add: test_env_def ParseUint_digit Index_Add_def indexer_New_def)
  show ?thesis
    by (simp add: OpenWallet_def rw DeserializeWallet_test retrieveAccountsIndex_def tw ri de
          reopened_wallet_def)
qed

lemma AccountByName_batched:
  "AccountByName batch_store test_env reopened_wallet ''Test account'' =
     (Inr batch_account, reopened_wallet\<lparr> batch := Some test_batch, accounts := [(1, batch_account)] \<rparr>)"
proof -
  have rb: "retrieveBatchIfRequired batch_store test_env reopened_wallet =
      (None, reopened_wallet\<lparr> batch := Some test_batch, accounts := [(1, batch_account)] \<rparr>)"
    unfolding test_batch_def
    by (simp add: retrieveBatchIfRequired_def retrieveAccountsBatch_def batch_store_simps Let_def
        reopened_wallet_def test_wallet_def newWallet_def batched_mem_def imported_mem_def empty_mem_def
        batch_UnmarshalJSON_test account_of_entry_test)
       (simp add: batch_account_def test_account_def)
  have idx: "Index_ID (index reopened_wallet) ''Test account'' = Some 1"
    by (simp add: reopened_wallet_def Index_ID_def)
  have bp: "entries test_batch \<noteq> []" by (simp add: test_batch_def)
  show ?thesis
    by (simp add: AccountByName_def idx AccountByID_def rb Let_def batch_present_def bp)
qed

lemma Unlock_batch_account_test:
  "Unlock test_env batch_account ''batch passphrase'' = (Some (New ''incorrect passphrase''), batch_account)"
  by (simp add: Unlock_def batch_account_def test_account_def encryptor_of_def test_env_def
        test_encryptor_def)

lemma batchDecrypt_test:
  "batchDecrypt test_env (reopened_wallet\<lparr> batch := Some test_batch, accounts := [(1, batch_account)] \<rparr>)
      ''batch passphrase'' =
     (None, reopened_wallet\<lparr> batch := Some test_batch,
        accounts := [(1, batch_account\<lparr> secretKey := Some sk1 \<rparr>)], batchDecrypted := True \<rparr>)"
proof -
  have d: "Decrypt (wallet_encryptor test_env)
        (Some [(''key'', JString ''batch passphrase''), (''message'', JString (Sprintf_x sk1))])
        ''batch passphrase'' = Inr sk1"
    by (simp add: test_env_def test_encryptor_def hex_DecodeString_Sprintf_x)
  have l: "length sk1 = 32" "take 32 sk1 = sk1" by (simp_all add: sk1_def)
  have priv: "BLSPrivateKeyFromBytes test_env sk1 = Inr sk1"
    by (simp add: BLSPrivateKeyFromBytes_def test_env_def sk1_def)
  have pk: "sk_PublicKey test_env sk1 = publicKey batch_account" "secretKey batch_account = None"
    by (simp_all add: test_env_def batch_account_def test_account_def)
  show ?thesis
    by (simp add: batchDecrypt_def reopened_wallet_def test_wallet_def newWallet_def test_batch_def d l priv pk)
qed

text \<open>
  Claim C1, at the wallet of one account. \<open>BatchWallet\<close> with the account passphrase
  \<open>secret\<close> and the batch passphrase \<open>batch passphrase\<close> writes the batch; the wallet
  is opened again and \<open>AccountByName\<close> gives the account made from the batch entry, which
  has no crypto record. \<open>Unlock\<close> with the batch passphrase hands that absent record to
  the Encryptor, returns \<open>incorrect passphrase\<close> and leaves the account locked: it does
  not read the batch. \<open>batchDecrypt\<close>, which no function calls, does decrypt the batch
  under that passphrase and gives the account its secret key.
\<close>

theorem Unlock_batch_account:
  "BatchWallet batch_store test_env (test_wallet imported_mem) [''secret''] ''batch passphrase'' =
     (None, (test_wallet imported_mem)\<lparr> store := batched_mem \<rparr>) \<and>
   (\<exists>w1 w2. OpenWallet batch_store test_env batched_mem ''test wallet'' = Inr w1 \<and>
      AccountByName batch_store test_env w1 ''Test account'' = (Inr batch_account, w2) \<and>
      a_crypto batch_account = None \<and>
      Unlock test_env batch_account ''batch passphrase'' =
        (Some (New ''incorrect passphrase''), batch_account) \<and>
      IsUnlocked (snd (Unlock test_env batch_account ''batch passphrase'')) = False \<and>
      fst (batchDecrypt test_env w2 ''batch passphrase'') = None \<and>
      map_of (accounts (snd (batchDecrypt test_env w2 ''batch passphrase''))) 1 =
        Some (batch_account\<lparr> secretKey := Some sk1 \<rparr>))"
proof -
  have c: "a_crypto batch_account = None" "IsUnlocked batch_account = False"
    by (simp_all add: batch_account_def IsUnlocked_def test_account_def)
  show ?thesis
    unfolding BatchWallet_test OpenWallet_batched
    using c by (simp add: AccountByName_batched Unlock_batch_account_test batchDecrypt_test)
qed

section \<open>C3: a failed persistence step and the rollback of the index\<close>

lemma set_update_subset: "set (AList.update k v al) \<subseteq> insert (k, v) (set al)"
  by (induction al) auto

lemma batch_accounts_subset:
  "set (snd (batch_accounts E es accs)) \<subseteq>
     set accs \<union> {(a_id x, x) | x. \<exists>e \<in> set es. account_of_entry E e = Inr x}"
proof (induction es arbitrary: accs)
  case Nil
  then show ?case by simp
next
  case (Cons e es)
  show ?case
  proof (cases "account_of_entry E e")
    case (Inl err)
    then show ?thesis by simp
  next
    case (Inr a)
    have "set (snd (batch_accounts E es (AList.update (a_id a) a accs))) \<subseteq>
       set (AList.update (a_id a) a accs) \<union> {(a_id x, x) | x. \<exists>e \<in> set es. account_of_entry E e = Inr x}"
      by (rule Cons.IH)
    also have "\<dots> \<subseteq> insert (a_id a, a) (set accs) \<union>
        {(a_id x, x) | x. \<exists>e \<in> set es. account_of_entry E e = Inr x}"
      using set_update_subset [of "a_id a" a accs] by blast
    also have "\<dots> \<subseteq> set accs \<union> {(a_id x, x) | x. \<exists>e' \<in> set (e # es). account_of_entry E e' = Inr x}"
      using Inr by auto
    finally show ?thesis using Inr by simp
  qed
qed

lemma cache_step_refl: "cache_step E X w w"
  by (auto simp add: cache_step_def)

lemma cache_step_mono: "cache_step E X w w' \<Longrightarrow> X \<subseteq> Y \<Longrightarrow> cache_step E Y w w'"
  unfolding cache_step_def by blast

lemma cache_step_trans:
  assumes a: "cache_step E X w w1" and b: "cache_step E X w1 w2"
  shows "cache_step E X w w2"
proof (cases "set (accounts w1) \<subseteq> set (accounts w) \<union> X \<and> (batch w \<noteq> None \<longrightarrow> batch w1 = batch w)")
  case True
  note eq1 = this
  show ?thesis
  proof (cases "set (accounts w2) \<subseteq> set (accounts w1) \<union> X \<and> (batch w1 \<noteq> None \<longrightarrow> batch w2 = batch w1)")
    case True
    with eq1 have "set (accounts w2) \<subseteq> set (accounts w) \<union> X" by blast
    moreover from True eq1 have "batch w \<noteq> None \<longrightarrow> batch w2 = batch w" by auto
    ultimately show ?thesis by (simp add: cache_step_def)
  next
    case False
    with b obtain b2 where n1: "batch w1 = None" and b2: "batch w2 = Some b2"
      and sub: "set (accounts w2) \<subseteq> set (accounts w1) \<union> materialized E b2 \<union> X"
      unfolding cache_step_def by blast
    from eq1 n1 have n: "batch w = None" by (cases "batch w") simp_all
    from sub eq1 have "set (accounts w2) \<subseteq> set (accounts w) \<union> materialized E b2 \<union> X" by blast
    with n b2 show ?thesis by (simp add: cache_step_def)
  qed
next
  case False
  with a obtain b1 where n: "batch w = None" and b1: "batch w1 = Some b1"
    and sub: "set (accounts w1) \<subseteq> set (accounts w) \<union> materialized E b1 \<union> X"
    unfolding cache_step_def by blast
  from b b1 have "set (accounts w2) \<subseteq> set (accounts w1) \<union> X \<and> batch w2 = batch w1"
    unfolding cache_step_def by simp
  then have "set (accounts w2) \<subseteq> set (accounts w) \<union> materialized E b1 \<union> X" "batch w2 = Some b1"
    using sub b1 by auto
  with n show ?thesis by (simp add: cache_step_def)
qed

lemma cache_step_cong:
  "accounts v = accounts w \<Longrightarrow> batch v = batch w \<Longrightarrow> cache_step E X v w' = cache_step E X w w'"
  by (simp add: cache_step_def)

lemma cache_step_cong2:
  "accounts v = accounts w' \<Longrightarrow> batch v = batch w' \<Longrightarrow> cache_step E X w v = cache_step E X w w'"
  by (simp add: cache_step_def)

lemma retrieveAccountsBatch_cache_step:
  "cache_step E {} w (snd (retrieveAccountsBatch S E w))"
proof (cases "batch w")
  case (Some b)
  then show ?thesis by (simp add: retrieveAccountsBatch_def cache_step_def)
next
  case None
  have sub: "set (snd (batch_accounts E (entries res) (accounts w))) \<subseteq>
      set (accounts w) \<union> materialized E res" for res
    using batch_accounts_subset [of E "entries res" "accounts w"]
    by (simp add: materialized_def)
  have sub': "batch_accounts E (entries res) (accounts w) = (e, accs) \<Longrightarrow>
      set accs \<subseteq> set (accounts w) \<union> materialized E res" for res e accs
    using sub [of res] by simp
  show ?thesis
    using None sub'
    by (simp add: retrieveAccountsBatch_def cache_step_def Let_def
          split: option.splits sum.splits prod.splits)
qed

lemma retrieveBatchIfRequired_cache_step:
  "cache_step E {} w (snd (retrieveBatchIfRequired S E w))"
  by (simp add: retrieveBatchIfRequired_def retrieveAccountsBatch_cache_step cache_step_refl)

lemma AccountByID_frame:
  "w_id (snd (AccountByID S E w i)) = w_id w"
  "index (snd (AccountByID S E w i)) = index w"
  "batch (snd (AccountByID S E w i)) = batch (snd (retrieveBatchIfRequired S E w))"
  by (simp_all add: AccountByID_def Let_def retrieveBatchIfRequired_frame
        split: option.splits sum.splits prod.splits)

lemma AccountByID_failure:
  "fst (AccountByID S E w i) = Inl err \<Longrightarrow>
   accounts (snd (AccountByID S E w i)) = accounts (snd (retrieveBatchIfRequired S E w))"
  by (simp add: AccountByID_def Let_def split: option.splits sum.splits if_splits prod.splits)

lemma AccountByID_accounts:
  "set (accounts (snd (AccountByID S E w i))) \<subseteq>
     set (accounts (snd (retrieveBatchIfRequired S E w))) \<union> {p. fst p = i}"
proof -
  have "set (AList.update i res al) \<subseteq> set al \<union> {p. fst p = i}" for res and al :: "(uuid \<times> account) list"
    using set_update_subset [of i res al] by auto
  then show ?thesis
    by (simp add: AccountByID_def Let_def split: option.splits sum.splits if_splits prod.splits)
qed

lemma AccountByID_failure_cache_step:
  assumes "fst (AccountByID S E w i) = Inl err"
  shows "cache_step E {} w (snd (AccountByID S E w i))"
proof -
  have "cache_step E {} w (snd (AccountByID S E w i)) = cache_step E {} w (snd (retrieveBatchIfRequired S E w))"
    by (rule cache_step_cong2) (simp_all add: AccountByID_failure [OF assms] AccountByID_frame)
  then show ?thesis by (simp add: retrieveBatchIfRequired_cache_step)
qed

lemma AccountByID_cache_step:
  "cache_step E {p. fst p = i} w (snd (AccountByID S E w i))"
proof -
  let ?w0 = "snd (retrieveBatchIfRequired S E w)"
  have "cache_step E {p. fst p = i} ?w0 (snd (AccountByID S E w i))"
    using AccountByID_accounts [of S E w i]
    by (simp add: cache_step_def AccountByID_frame)
  moreover have "cache_step E {p. fst p = i} w ?w0"
    by (rule cache_step_mono [OF retrieveBatchIfRequired_cache_step]) simp
  ultimately show ?thesis using cache_step_trans by blast
qed

lemma AccountByName_frame:
  "w_id (snd (AccountByName S E w n)) = w_id w"
  "index (snd (AccountByName S E w n)) = index w"
  by (simp_all add: AccountByName_def AccountByID_frame split: option.splits)

lemma AccountByName_failure_cache_step:
  "fst (AccountByName S E w n) = Inl err \<Longrightarrow> cache_step E {} w (snd (AccountByName S E w n))"
  by (simp add: AccountByName_def AccountByID_failure_cache_step cache_step_refl split: option.splits)

lemma storeAccountsIndex_frame:
  "\<exists>s. snd (storeAccountsIndex S E w) = w\<lparr> store := s \<rparr>"
proof (cases "index_Serialize E (index w)")
  case (Inl e)
  then have "snd (storeAccountsIndex S E w) = w\<lparr> store := store w \<rparr>"
    by (simp add: storeAccountsIndex_def)
  then show ?thesis ..
next
  case (Inr d)
  then have "snd (storeAccountsIndex S E w) =
      w\<lparr> store := snd (StoreAccountsIndex S (store w) (w_id w) d) \<rparr>"
    by (simp add: storeAccountsIndex_def split: prod.splits option.splits)
  then show ?thesis ..
qed

lemma storeAccount_failure:
  assumes st: "storeAccount S E a w = (Some err, w3)"
    and idx: "Index_ID (index w) (a_name a) = Some (a_id a)"
  shows "cache_step E {p. fst p = a_id a \<and> confirm_by_ID_error err} w w3 \<and> index w3 = index w"
proof (cases "MarshalJSON E a")
  case (Inl e)
  with st show ?thesis by (simp add: storeAccount_def cache_step_refl)
next
  case (Inr d)
  note m = this
  obtain r1 w1 where si: "storeAccountsIndex S E w = (r1, w1)" by (cases "storeAccountsIndex S E w")
  obtain s1 where w1: "w1 = w\<lparr> store := s1 \<rparr>"
    using storeAccountsIndex_frame [of S E w] si by auto
  have c1: "cache_step E X w (w\<lparr> store := s \<rparr>)" for s X by (simp add: cache_step_def)
  show ?thesis
  proof (cases r1)
    case (Some e)
    with st m si have "w3 = w1" by (simp add: storeAccount_def)
    then show ?thesis using c1 w1 by simp
  next
    case None
    note r1 = this
    obtain r2 s2 where sa: "StoreAccount S (store w1) (w_id w1) (a_id a) d = (r2, s2)"
      by (cases "StoreAccount S (store w1) (w_id w1) (a_id a) d")
    let ?wz = "w\<lparr> store := s2 \<rparr>"
    have wz: "w1\<lparr> store := s2 \<rparr> = ?wz" by (simp add: w1)
    show ?thesis
    proof (cases r2)
      case (Some e)
      with st m si r1 sa have "w3 = w1\<lparr> store := s2 \<rparr>" by (simp add: storeAccount_def)
      then have "w3 = ?wz" by (simp add: w1)
      then show ?thesis using c1 by simp
    next
      case None
      note r2 = this
      obtain r3 w2 where an: "AccountByName S E ?wz (a_name a) = (r3, w2)"
        by (cases "AccountByName S E ?wz (a_name a)")
      have i2: "index w2 = index w"
        using AccountByName_frame(2) [of S E ?wz "a_name a"] an by simp
      show ?thesis
      proof (cases r3)
        case (Inl e)
        then have "cache_step E {} ?wz w2"
          using AccountByName_failure_cache_step [of S E ?wz "a_name a" e] an by simp
        then have "cache_step E {} w w2" by (simp add: cache_step_def)
        then have "cache_step E {p. fst p = a_id a \<and> confirm_by_ID_error err} w w2"
          by (rule cache_step_mono) simp
        moreover have "w3 = w2"
          using st m si r1 sa r2 wz an Inl by (simp add: storeAccount_def)
        ultimately show ?thesis using i2 by simp
      next
        case (Inr x)
        obtain r4 w4 where ai: "AccountByID S E w2 (a_id a) = (r4, w4)"
          by (cases "AccountByID S E w2 (a_id a)")
        have st': "(case r4 of Inl err \<Rightarrow> (Some (Wrap err ''failed to confirm account when retrieveing by ID''), w4)
                    | Inr y \<Rightarrow> (None, w4)) = (Some err, w3)"
          using st m si r1 sa r2 wz an Inr ai by (simp add: storeAccount_def)
        then obtain e where r4: "r4 = Inl e" and err: "err = Wrap e ''failed to confirm account when retrieveing by ID''"
          and w3: "w3 = w4"
          by (cases r4) auto
        have ce: "confirm_by_ID_error err" by (simp add: err confirm_by_ID_error_def)
        have "AccountByID S E ?wz (a_id a) = (Inr x, w2)"
          using an Inr idx by (simp add: AccountByName_def)
        then have s1: "cache_step E {p. fst p = a_id a} ?wz w2"
          using AccountByID_cache_step [of E "a_id a" ?wz S] by simp
        have "cache_step E {} w2 w4"
          using AccountByID_failure_cache_step [of S E w2 "a_id a" e] ai r4 by simp
        then have s2: "cache_step E {p. fst p = a_id a} w2 w4"
          by (rule cache_step_mono) simp
        have "cache_step E {p. fst p = a_id a} ?wz w4" using s1 s2 by (rule cache_step_trans)
        then have "cache_step E {p. fst p = a_id a} w w4" by (simp add: cache_step_def)
        moreover have "index w4 = index w"
          using AccountByID_frame(2) [of S E w2 "a_id a"] ai i2 by simp
        ultimately show ?thesis using ce w3 by simp
      qed
    qed
  qed
qed

lemma import_verification_vector_error:
  "import_verification_vector E i vs = Inl err \<Longrightarrow> \<not> persistence_error err"
proof (induction vs arbitrary: i)
  case Nil
  then show ?case by simp
next
  case (Cons v vs)
  then show ?case
    by (cases "import_verification_vector E (Suc i) vs")
       (auto simp add: persistence_error_def bindE_simps split: sum.splits)
qed

lemma Index_Remove_absent:
  "Index_ID (Index_Remove i n idx) n = None" "Index_Name (Index_Remove i n idx) i = None"
  by (simp_all add: Index_ID_def Index_Name_def Index_Remove_def delete_conv')

lemma delete_update_absent: "map_of al k = None \<Longrightarrow> AList.delete k (AList.update k v al) = al"
  by (simp add: delete_update_same map_of_eq_None_iff delete_id)

lemma Index_Remove_Add:
  "Index_ID idx n = None \<Longrightarrow> Index_Name idx i = None \<Longrightarrow> Index_Remove i n (Index_Add i n idx) = idx"
  by (simp add: Index_ID_def Index_Name_def Index_Remove_def Index_Add_def delete_update_absent)

lemma Index_ID_Add_same: "Index_ID (Index_Add i n idx) n = Some i"
  by (simp add: Index_ID_def Index_Add_def update_conv')

lemma import_persistence_path:
  assumes imp: "ImportDistributedAccount S E fresh w name privatekey t vv ps pw = (Inl err, w')"
    and pe: "persistence_error err"
  shows "\<exists>nf w1 a w3. AccountByName S E w name = (Inl nf, w1) \<and> a_id a = fresh \<and> a_name a = name \<and>
           storeAccount S E a (w1\<lparr> index := Index_Add fresh name (index w1) \<rparr>) = (Some err, w3) \<and>
           w' = w3\<lparr> index := Index_Remove fresh name (index w3) \<rparr>"
proof -
  have n1: "\<not> persistence_error (New m)" for m by (simp add: persistence_error_def)
  have n2: "\<not> persistence_error (Errorf m x)" for m x by (simp add: persistence_error_def)
  have n3: "\<not> persistence_error (Wrap e ''failed to obtain BLS private key'')" for e
    by (simp add: persistence_error_def)
  have n4: "\<not> persistence_error (Wrap e ''failed to encrypt private key'')" for e
    by (simp add: persistence_error_def)
  note n5 = import_verification_vector_error
  obtain r w1 where an: "AccountByName S E w name = (r, w1)" by (cases "AccountByName S E w name")
  from imp pe n1 n2 an obtain nf where nf: "r = Inl nf"
    and pre: "name \<noteq> []" "\<not> HasPrefix name ''_''" "length privatekey \<noteq> 0" "length vv \<noteq> 0" "map_len ps \<noteq> 0"
       "\<not> t \<le> half_participants ps" "(of_nat (length vv) :: 32 word) = t" "unlocked w"
    by (cases r) (auto simp add: ImportDistributedAccount_def split: if_splits)
  from imp pe an nf pre n3 obtain sk where sk: "BLSPrivateKeyFromBytes E privatekey = Inr sk"
    by (cases "BLSPrivateKeyFromBytes E privatekey") (auto simp add: ImportDistributedAccount_def)
  from imp pe an nf pre sk n5 [of E 0 vv err] obtain vk where vk: "import_verification_vector E 0 vv = Inr vk"
    by (cases "import_verification_vector E 0 vv") (auto simp add: ImportDistributedAccount_def)
  from imp pe an nf pre sk vk n4 obtain c where c: "Encrypt (wallet_encryptor E) sk pw = Inr c"
    by (cases "Encrypt (wallet_encryptor E) sk pw") (auto simp add: ImportDistributedAccount_def)
  define a where "a = (newAccount fresh)\<lparr> a_name := name, publicKey := sk_PublicKey E sk,
                    signingThreshold := t, verificationVector := vk,
                    participants := copy_participants ps, a_crypto := c,
                    a_encryptor := Some WalletEncryptor,
                    a_version := enc_Version (wallet_encryptor E) \<rparr>"
  have ida: "a_id a = fresh" "a_name a = name" by (simp_all add: a_def newAccount_def)
  obtain r3 w3 where sa: "storeAccount S E a (w1\<lparr> index := Index_Add fresh name (index w1) \<rparr>) = (r3, w3)"
    by (cases "storeAccount S E a (w1\<lparr> index := Index_Add fresh name (index w1) \<rparr>)")
  have imp': "(case r3 of Some err \<Rightarrow> (Inl err, w3\<lparr> index := Index_Remove (a_id a) (a_name a) (index w3) \<rparr>)
                 | None \<Rightarrow> (Inr a, w3\<lparr> accounts := AList.update (a_id a) a (accounts w3) \<rparr>)) = (Inl err, w')"
    using imp an nf pre sk vk c sa ida
    by (simp add: ImportDistributedAccount_def Let_def a_def [symmetric])
  then have "r3 = Some err \<and> w' = w3\<lparr> index := Index_Remove fresh name (index w3) \<rparr>"
    by (cases r3) (auto simp add: ida)
  with an nf ida sa show ?thesis by blast
qed

text \<open>
  Claim C3, as amended. Let \<open>ImportDistributedAccount\<close> return an error of the persistence
  step (\<open>storeAccount\<close>, called after the pair of identifier and name was added to the
  index). Then the error returned is the one \<open>storeAccount\<close> gave, and the wallet is the
  one \<open>storeAccount\<close> left with the pair removed from its index and nothing else changed:
  the Store is as \<open>storeAccount\<close> left it. The index in memory has no entry for the name
  and none for the identifier, and it is the index of before the call when it had neither.
  The account cache holds nothing but what it held before the call, the accounts made from
  the entries of the wallet's batch (when a look-up of the call fetched the batch) and,
  when the failing step is the second confirming look-up \<open>AccountByID\<close>, an entry for the
  new identifier.
\<close>

theorem ImportDistributedAccount_rollback:
  assumes imp: "ImportDistributedAccount S E fresh w name privatekey t vv ps pw = (Inl err, w')"
    and pe: "persistence_error err"
  shows "(\<exists>a w2 w3. a_id a = fresh \<and> a_name a = name \<and> Index_ID (index w2) name = Some fresh \<and>
            storeAccount S E a w2 = (Some err, w3) \<and>
            w' = w3\<lparr> index := Index_Remove fresh name (index w3) \<rparr>) \<and>
         Index_ID (index w') name = None \<and> Index_Name (index w') fresh = None \<and>
         (Index_ID (index w) name = None \<and> Index_Name (index w) fresh = None \<longrightarrow> index w' = index w) \<and>
         (\<forall>(i, x) \<in> set (accounts w'). (i, x) \<in> set (accounts w) \<or>
            (\<exists>b e. batch w' = Some b \<and> e \<in> set (entries b) \<and> account_of_entry E e = Inr x \<and> i = a_id x) \<or>
            (i = fresh \<and> confirm_by_ID_error err))"
proof -
  from import_persistence_path [OF imp pe] obtain nf w1 a w3 where
    an: "AccountByName S E w name = (Inl nf, w1)" and ida: "a_id a = fresh" "a_name a = name" and
    sa: "storeAccount S E a (w1\<lparr> index := Index_Add fresh name (index w1) \<rparr>) = (Some err, w3)" and
    w': "w' = w3\<lparr> index := Index_Remove fresh name (index w3) \<rparr>"
    by blast
  let ?w2 = "w1\<lparr> index := Index_Add fresh name (index w1) \<rparr>"
  let ?X = "{p. fst p = fresh \<and> confirm_by_ID_error err}"
  have i1: "index w1 = index w"
    using AccountByName_frame(2) [of S E w name] an by simp
  have idx2: "Index_ID (index ?w2) (a_name a) = Some (a_id a)"
    by (simp add: ida Index_ID_Add_same)
  have "cache_step E {} w w1"
    using AccountByName_failure_cache_step [of S E w name nf] an by simp
  then have s01: "cache_step E ?X w w1" by (rule cache_step_mono) simp
  from storeAccount_failure [OF sa idx2]
  have s23: "cache_step E ?X ?w2 w3" and i3: "index w3 = Index_Add fresh name (index w)"
    by (simp_all add: i1 ida)
  from s23 have s13: "cache_step E ?X w1 w3" by (simp add: cache_step_def)
  have s03: "cache_step E ?X w w3" using s01 s13 by (rule cache_step_trans)
  have s: "cache_step E ?X w w'" using s03 by (simp add: w' cache_step_def)
  have A: "\<exists>a w2 w3. a_id a = fresh \<and> a_name a = name \<and> Index_ID (index w2) name = Some fresh \<and>
            storeAccount S E a w2 = (Some err, w3) \<and>
            w' = w3\<lparr> index := Index_Remove fresh name (index w3) \<rparr>"
    using ida idx2 sa w' by blast
  have B: "Index_ID (index w') name = None" "Index_Name (index w') fresh = None"
    by (simp_all add: w' Index_Remove_absent)
  have C: "Index_ID (index w) name = None \<and> Index_Name (index w) fresh = None \<longrightarrow> index w' = index w"
    by (simp add: w' i3 Index_Remove_Add)
  have D: "\<forall>(i, x) \<in> set (accounts w'). (i, x) \<in> set (accounts w) \<or>
            (\<exists>b e. batch w' = Some b \<and> e \<in> set (entries b) \<and> account_of_entry E e = Inr x \<and> i = a_id x) \<or>
            (i = fresh \<and> confirm_by_ID_error err)"
  proof (cases "set (accounts w') \<subseteq> set (accounts w) \<union> ?X")
    case True
    then show ?thesis by auto
  next
    case False
    with s obtain b where b: "batch w' = Some b"
      and sub: "set (accounts w') \<subseteq> set (accounts w) \<union> materialized E b \<union> ?X"
      unfolding cache_step_def by blast
    have step: "(i, x) \<in> set (accounts w) \<or>
            (\<exists>b e. batch w' = Some b \<and> e \<in> set (entries b) \<and> account_of_entry E e = Inr x \<and> i = a_id x) \<or>
            (i = fresh \<and> confirm_by_ID_error err)" if in': "(i, x) \<in> set (accounts w')" for i x
    proof -
      from in' sub consider "(i, x) \<in> set (accounts w)" | "(i, x) \<in> materialized E b" | "(i, x) \<in> ?X"
        by blast
      then show ?thesis
      proof cases
        case 1
        then show ?thesis by simp
      next
        case 2
        then obtain e where "e \<in> set (entries b)" "account_of_entry E e = Inr x" "i = a_id x"
          unfolding materialized_def by blast
        with b show ?thesis by blast
      next
        case 3
        then show ?thesis by simp
      qed
    qed
    show ?thesis
    proof (rule ballI)
      fix p assume p: "p \<in> set (accounts w')"
      obtain i x where px: "p = (i, x)" by (cases p)
      from step [of i x] p px
      show "case p of (i, x) \<Rightarrow> (i, x) \<in> set (accounts w) \<or>
            (\<exists>b e. batch w' = Some b \<and> e \<in> set (entries b) \<and> account_of_entry E e = Inr x \<and> i = a_id x) \<or>
            (i = fresh \<and> confirm_by_ID_error err)"
        by simp
    qed
  qed
  from A B C D show ?thesis by blast
qed

lemma flaky_store_simps:
  "RetrieveAccounts flaky_store s w = map snd (filter (\<lambda>p. fst (fst p) = w) (m_accounts (fst s)))"
  "RetrieveAccount flaky_store (m, 0) w a = (Inl (Lib ''connection lost''), (m, 0))"
  "RetrieveAccount flaky_store (m, Suc n) w a = (case map_of (m_accounts m) (w, a) of
         None \<Rightarrow> Inl (Lib ''account not found'') | Some d \<Rightarrow> Inr d, (m, n))"
  "StoreAccount flaky_store (m, n) w a d = (if m_full m then (Some (Lib ''no space left''), (m, n))
         else (None, (m\<lparr> m_accounts := AList.update (w, a) d (m_accounts m) \<rparr>, n)))"
  "StoreAccountsIndex flaky_store (m, n) w d = (None, (m\<lparr> m_index := AList.update w d (m_index m) \<rparr>, n))"
  "RetrieveBatch flaky_store = None"
  by (simp_all add: flaky_store_def plain_store_def split: option.splits)

lemma failed_import_test:
  obtains d where
    "deserializeAccount test_env d = Inr (new_account\<lparr> a_encryptor := Some Keystorev4 \<rparr>)"
    "failed_import 0 =
      (Inl (Wrap (Wrap (Lib ''connection lost'') ''failed to retrieve account'')
              ''failed to confirm account when retrieving by name''),
       (flaky_wallet 0)\<lparr> store := (empty_mem\<lparr> m_accounts := [((100, 5), d)],
          m_index := [(100, Doc (JArray [JObject [(''uuid'', JString ''5''), (''name'', JString ''account'')]]))] \<rparr>, 0) \<rparr>)"
    "failed_import (Suc 0) =
      (Inl (Wrap (Wrap (Lib ''connection lost'') ''failed to retrieve account'')
              ''failed to confirm account when retrieveing by ID''),
       (flaky_wallet (Suc 0))\<lparr> store := (empty_mem\<lparr> m_accounts := [((100, 5), d)],
          m_index := [(100, Doc (JArray [JObject [(''uuid'', JString ''5''), (''name'', JString ''account'')]]))] \<rparr>, 0),
          accounts := [(5, new_account\<lparr> a_encryptor := Some Keystorev4 \<rparr>)] \<rparr>)"
proof -
  define vv :: "bytes list" where "vv = [[1], [2]]"
  define ps :: "(64 word \<times> string) list" where "ps = [(1, ''a''), (2, ''b''), (3, ''c'')]"
  have na: "new_account = \<lparr> a_id = 5, a_name = ''account'', verificationVector = vv,
     signingThreshold = 2, participants = ps,
     a_crypto = Some [(''key'', JString ''secret''), (''message'', JString (Sprintf_x sk1))],
     secretKey = None, publicKey = map (\<lambda>b. b + 1) sk1, a_version = 4,
     a_encryptor = Some WalletEncryptor \<rparr>"
    by (simp add: new_account_def vv_def ps_def)
  have fi: "failed_import n = ImportDistributedAccount flaky_store test_env 5 (flaky_wallet n)
     ''account'' sk1 2 vv ps ''secret''" for n
    by (simp add: failed_import_def vv_def ps_def)
  obtain d where m: "MarshalJSON test_env new_account = Inr d"
    by (simp add: MarshalJSON_def na)
  obtain j where dj: "d = Doc j" using MarshalJSON_Doc [OF m] ..
  have half: "half_participants ps < (2 :: 32 word)"
    by (simp add: half_participants_def map_len_def word_less_nat_alt ps_def)
  have dist: "distinct (map fst ps)" by (simp add: ps_def)
  have vvv: "\<forall>k \<in> set (verificationVector new_account). pubkey_invalid test_env k = None"
    by (simp add: new_account_def test_env_def)
  have un: "UnmarshalJSON test_env b d =
           Inr (b\<lparr> a_id := a_id new_account, a_name := a_name new_account, publicKey := publicKey new_account,
                   verificationVector := verificationVector new_account, participants := participants new_account,
                   signingThreshold := signingThreshold new_account, a_crypto := a_crypto new_account,
                   a_version := 4, a_encryptor := Some Keystorev4 \<rparr>)" for b
    by (rule UnmarshalJSON_after_MarshalJSON [OF _ _ _ vvv _ _ test_uuid_roundtrip m])
       (use half dist in \<open>simp_all add: na test_env_def sk1_def\<close>)
  have des: "deserializeAccount test_env d = Inr (new_account\<lparr> a_encryptor := Some Keystorev4 \<rparr>)"
    unfolding dj
    by (rule deserializeAccount_UnmarshalJSON) (simp add: un [unfolded dj] new_account_def newAccount_def)
  have imp: "import_verification_vector test_env 0 vv = Inr vv"
    by (rule import_verification_vector_valid) (simp add: test_env_def vv_def)
  have nsk: "sk1 \<noteq> []" by (simp add: sk1_def)
  have nvv: "vv \<noteq> []" "(of_nat (length vv) :: 32 word) = 2" by (simp_all add: vv_def)
  have nps: "map_len ps \<noteq> 0" by (simp add: map_len_def ps_def)
  have nhalf: "\<not> (2 :: 32 word) \<le> half_participants ps" using half by simp
  have acc: "(newAccount 5)\<lparr> a_name := ''account'', publicKey := sk_PublicKey test_env sk1,
                    signingThreshold := 2, verificationVector := vv,
                    participants := copy_participants ps,
                    a_crypto := Some [(''key'', JString ''secret''), (''message'', JString (Sprintf_x sk1))],
                    a_encryptor := Some WalletEncryptor,
                    a_version := enc_Version (wallet_encryptor test_env) \<rparr> = new_account"
    by (simp add: newAccount_def na copy_participants_distinct [OF dist] test_env_def test_encryptor_def)
  have priv: "BLSPrivateKeyFromBytes test_env sk1 = Inr sk1"
    by (simp add: BLSPrivateKeyFromBytes_def test_env_def sk1_def)
  have enc: "Encrypt (wallet_encryptor test_env) sk1 ''secret'' =
      Inr (Some [(''key'', JString ''secret''), (''message'', JString (Sprintf_x sk1))])"
    by (simp add: test_env_def test_encryptor_def)
  have ser: "index_Serialize test_env idx = Inr (Doc (JArray (map
        (\<lambda>(n, i). JObject [(''uuid'', JString (Sprintf_d (unat i))), (''name'', JString n)]) (ids idx))))" for idx
    by (simp add: test_env_def)
  have five: "Sprintf_d 5 = ''5''"
    by (simp add: Sprintf_d.simps char_of_eq_iff)
  have aid: "a_id new_account = 5" "a_name new_account = ''account''" by (simp_all add: new_account_def)
  have r0: "failed_import 0 =
      (Inl (Wrap (Wrap (Lib ''connection lost'') ''failed to retrieve account'')
              ''failed to confirm account when retrieving by name''),
       (flaky_wallet 0)\<lparr> store := (empty_mem\<lparr> m_accounts := [((100, 5), d)],
          m_index := [(100, Doc (JArray [JObject [(''uuid'', JString ''5''), (''name'', JString ''account'')]]))] \<rparr>, 0) \<rparr>)"
    unfolding fi
    by (simp add: ImportDistributedAccount_def nsk nvv nps nhalf flaky_wallet_def
          newWallet_def AccountByName_def Index_ID_def indexer_New_def priv imp enc acc Let_def
          storeAccount_def m storeAccountsIndex_def ser flaky_store_simps empty_mem_def Index_Add_def
          Index_Remove_def aid AccountByID_def retrieveBatchIfRequired_def batch_present_def HasPrefix_def five)
  have r1: "failed_import (Suc 0) =
      (Inl (Wrap (Wrap (Lib ''connection lost'') ''failed to retrieve account'')
              ''failed to confirm account when retrieveing by ID''),
       (flaky_wallet (Suc 0))\<lparr> store := (empty_mem\<lparr> m_accounts := [((100, 5), d)],
          m_index := [(100, Doc (JArray [JObject [(''uuid'', JString ''5''), (''name'', JString ''account'')]]))] \<rparr>, 0),
          accounts := [(5, new_account\<lparr> a_encryptor := Some Keystorev4 \<rparr>)] \<rparr>)"
    unfolding fi
    by (simp add: ImportDistributedAccount_def nsk nvv nps nhalf flaky_wallet_def
          newWallet_def AccountByName_def Index_ID_def indexer_New_def priv imp enc acc Let_def
          storeAccount_def m storeAccountsIndex_def ser flaky_store_simps empty_mem_def Index_Add_def
          Index_Remove_def aid AccountByID_def retrieveBatchIfRequired_def batch_present_def HasPrefix_def
          five des)
  from des r0 r1 show ?thesis by (rule that)
qed

lemma flaky_wallet_simps:
  "accounts (flaky_wallet n) = []" "batch (flaky_wallet n) = None" "index (flaky_wallet n) = indexer_New"
  "w_id (flaky_wallet n) = 100"
  by (simp_all add: flaky_wallet_def newWallet_def)

text \<open>
  The claim as stated fails where a confirming look-up fails after the account record was
  written. On a Store that answers one retrieval of an account and then loses its
  connection, the look-up by name succeeds and caches the account, the look-up by ID fails,
  and the import fails: the index in memory has neither the name nor the identifier, but
  the account is in the cache, and \<open>Accounts\<close> on the same wallet returns it from the
  Store. On a Store that answers no retrieval the look-up by name fails: index and cache
  are clean, and \<open>Accounts\<close> returns the account all the same.
\<close>

theorem ImportDistributedAccount_rollback_counterexample:
  "fst (failed_import (Suc 0)) =
     Inl (Wrap (Wrap (Lib ''connection lost'') ''failed to retrieve account'')
            ''failed to confirm account when retrieveing by ID'') \<and>
   Index_ID (index (snd (failed_import (Suc 0)))) ''account'' = None \<and>
   Index_Name (index (snd (failed_import (Suc 0)))) 5 = None \<and>
   map_of (accounts (snd (failed_import (Suc 0)))) 5 = Some (new_account\<lparr> a_encryptor := Some Keystorev4 \<rparr>) \<and>
   fst (Accounts flaky_store test_env (snd (failed_import (Suc 0)))) =
     [new_account\<lparr> a_encryptor := Some Keystorev4 \<rparr>] \<and>
   fst (failed_import 0) =
     Inl (Wrap (Wrap (Lib ''connection lost'') ''failed to retrieve account'')
            ''failed to confirm account when retrieving by name'') \<and>
   Index_ID (index (snd (failed_import 0))) ''account'' = None \<and>
   accounts (snd (failed_import 0)) = [] \<and>
   fst (Accounts flaky_store test_env (snd (failed_import 0))) =
     [new_account\<lparr> a_encryptor := Some Keystorev4 \<rparr>]"
proof -
  obtain d where des: "deserializeAccount test_env d = Inr (new_account\<lparr> a_encryptor := Some Keystorev4 \<rparr>)"
    and r0: "failed_import 0 =
      (Inl (Wrap (Wrap (Lib ''connection lost'') ''failed to retrieve account'')
              ''failed to confirm account when retrieving by name''),
       (flaky_wallet 0)\<lparr> store := (empty_mem\<lparr> m_accounts := [((100, 5), d)],
          m_index := [(100, Doc (JArray [JObject [(''uuid'', JString ''5''), (''name'', JString ''account'')]]))] \<rparr>, 0) \<rparr>)"
    and r1: "failed_import (Suc 0) =
      (Inl (Wrap (Wrap (Lib ''connection lost'') ''failed to retrieve account'')
              ''failed to confirm account when retrieveing by ID''),
       (flaky_wallet (Suc 0))\<lparr> store := (empty_mem\<lparr> m_accounts := [((100, 5), d)],
          m_index := [(100, Doc (JArray [JObject [(''uuid'', JString ''5''), (''name'', JString ''account'')]]))] \<rparr>, 0),
          accounts := [(5, new_account\<lparr> a_encryptor := Some Keystorev4 \<rparr>)] \<rparr>)"
    by (rule failed_import_test)
  have acc: "fst (Accounts flaky_store test_env
       (w\<lparr> store := (empty_mem\<lparr> m_accounts := [((100, 5), d)], m_index := ix \<rparr>, 0), accounts := as \<rparr>)) =
     [new_account\<lparr> a_encryptor := Some Keystorev4 \<rparr>]" if "w_id w = 100" "batch w = None" for w ix as
    using that
    by (simp add: Accounts_def retrieveBatchIfRequired_def flaky_store_simps batch_present_def Let_def
          empty_mem_def des)
  have acc0: "fst (Accounts flaky_store test_env
       (w\<lparr> store := (empty_mem\<lparr> m_accounts := [((100, 5), d)], m_index := ix \<rparr>, 0) \<rparr>)) =
     [new_account\<lparr> a_encryptor := Some Keystorev4 \<rparr>]" if "w_id w = 100" "batch w = None" for w ix
    using that
    by (simp add: Accounts_def retrieveBatchIfRequired_def flaky_store_simps batch_present_def Let_def
          empty_mem_def des)
  show ?thesis
    unfolding r0 r1
    by (simp add: acc acc0 flaky_wallet_simps Index_ID_def Index_Name_def indexer_New_def)
qed

text \<open>
  The theorem at these two imports: the one that fails at the look-up by name leaves the
  empty index and the empty cache, the one that fails at the look-up by ID leaves the empty
  index and no cache entry but for the new identifier.
\<close>

theorem ImportDistributedAccount_rollback_witness:
  "persistence_error (Wrap (Wrap (Lib ''connection lost'') ''failed to retrieve account'')
            ''failed to confirm account when retrieving by name'') \<and>
   fst (failed_import 0) =
     Inl (Wrap (Wrap (Lib ''connection lost'') ''failed to retrieve account'')
            ''failed to confirm account when retrieving by name'') \<and>
   Index_ID (index (snd (failed_import 0))) ''account'' = None \<and>
   Index_Name (index (snd (failed_import 0))) 5 = None \<and>
   index (snd (failed_import 0)) = indexer_New \<and>
   set (accounts (snd (failed_import 0))) = {} \<and>
   persistence_error (Wrap (Wrap (Lib ''connection lost'') ''failed to retrieve account'')
            ''failed to confirm account when retrieveing by ID'') \<and>
   fst (failed_import (Suc 0)) =
     Inl (Wrap (Wrap (Lib ''connection lost'') ''failed to retrieve account'')
            ''failed to confirm account when retrieveing by ID'') \<and>
   Index_ID (index (snd (failed_import (Suc 0)))) ''account'' = None \<and>
   Index_Name (index (snd (failed_import (Suc 0)))) 5 = None \<and>
   index (snd (failed_import (Suc 0))) = indexer_New \<and>
   fst ` set (accounts (snd (failed_import (Suc 0)))) \<subseteq> {5}"
proof -
  let ?e0 = "Wrap (Wrap (Lib ''connection lost'') ''failed to retrieve account'')
            ''failed to confirm account when retrieving by name''"
  let ?e1 = "Wrap (Wrap (Lib ''connection lost'') ''failed to retrieve account'')
            ''failed to confirm account when retrieveing by ID''"
  obtain d where r0: "failed_import 0 =
      (Inl ?e0, (flaky_wallet 0)\<lparr> store := (empty_mem\<lparr> m_accounts := [((100, 5), d)],
          m_index := [(100, Doc (JArray [JObject [(''uuid'', JString ''5''), (''name'', JString ''account'')]]))] \<rparr>, 0) \<rparr>)"
    and r1: "failed_import (Suc 0) =
      (Inl ?e1, (flaky_wallet (Suc 0))\<lparr> store := (empty_mem\<lparr> m_accounts := [((100, 5), d)],
          m_index := [(100, Doc (JArray [JObject [(''uuid'', JString ''5''), (''name'', JString ''account'')]]))] \<rparr>, 0),
          accounts := [(5, new_account\<lparr> a_encryptor := Some Keystorev4 \<rparr>)] \<rparr>)"
    by (rule failed_import_test)
  have f0: "fst (failed_import 0) = Inl ?e0" and b0: "batch (snd (failed_import 0)) = None"
    unfolding r0 by (simp_all add: flaky_wallet_simps)
  have f1: "fst (failed_import (Suc 0)) = Inl ?e1" and b1: "batch (snd (failed_import (Suc 0))) = None"
    unfolding r1 by (simp_all add: flaky_wallet_simps)
  have pe0: "persistence_error ?e0" and pe1: "persistence_error ?e1"
    and c0: "\<not> confirm_by_ID_error ?e0" and c1: "confirm_by_ID_error ?e1"
    by (simp_all add: persistence_error_def confirm_by_ID_error_def)
  have eq0: "ImportDistributedAccount flaky_store test_env 5 (flaky_wallet 0)
       ''account'' sk1 2 [[1], [2]] [(1, ''a''), (2, ''b''), (3, ''c'')] ''secret'' = (Inl ?e0, snd (failed_import 0))"
    using f0 by (simp add: failed_import_def prod_eq_iff)
  have eq1: "ImportDistributedAccount flaky_store test_env 5 (flaky_wallet (Suc 0))
       ''account'' sk1 2 [[1], [2]] [(1, ''a''), (2, ''b''), (3, ''c'')] ''secret'' = (Inl ?e1, snd (failed_import (Suc 0)))"
    using f1 by (simp add: failed_import_def prod_eq_iff)
  have i0: "Index_ID (index (flaky_wallet n)) ''account'' = None"
      "Index_Name (index (flaky_wallet n)) 5 = None" for n
    by (simp_all add: flaky_wallet_simps Index_ID_def Index_Name_def indexer_New_def)
  have j0: "Index_ID indexer_New ''account'' = None" "Index_Name indexer_New 5 = None"
    by (simp_all add: Index_ID_def Index_Name_def indexer_New_def)
  have ne: "(\<forall>a b. (a, b) \<notin> set xs) \<longleftrightarrow> xs = []" for xs :: "(uuid \<times> account) list"
    by (cases xs) auto
  from ImportDistributedAccount_rollback [OF eq0 pe0]
  have w0: "Index_ID (index (snd (failed_import 0))) ''account'' = None \<and>
   Index_Name (index (snd (failed_import 0))) 5 = None \<and>
   index (snd (failed_import 0)) = indexer_New \<and>
   set (accounts (snd (failed_import 0))) = {}"
    by (simp add: i0 j0 ne flaky_wallet_simps b0 c0)
  from ImportDistributedAccount_rollback [OF eq1 pe1]
  have w1: "Index_ID (index (snd (failed_import (Suc 0)))) ''account'' = None \<and>
   Index_Name (index (snd (failed_import (Suc 0)))) 5 = None \<and>
   index (snd (failed_import (Suc 0))) = indexer_New \<and>
   fst ` set (accounts (snd (failed_import (Suc 0)))) \<subseteq> {5}"
    by (auto simp add: i0 j0 flaky_wallet_simps b1 c1)
  from pe0 f0 w0 pe1 f1 w1 show ?thesis by (simp add: j0)
qed

end
